theory Spec2Isabelle
  imports Complex_Main
begin

section \<open>Python values\<close>

text \<open>
  The values the pipeline handles are the ones \<^verbatim>\<open>json.loads\<close> builds: \<^verbatim>\<open>None\<close>, booleans,
  unbounded integers, floats, strings, lists and dictionaries with string keys. A
  dictionary is an association list in insertion order, read with \<open>map_of\<close>.
\<close>

datatype pyfloat = Finite rat | PosInf | NegInf | NaN

datatype json =
    JNull
  | JBool bool
  | JInt int
  | JFloat pyfloat
  | JStr string
  | JList "json list"
  | JObj "(string \<times> json) list"

type_synonym dict = "(string \<times> json) list"

datatype py_error =
    TypeError
  | KeyError
  | IndexError
  | AttributeError
  | JSONDecodeError
  | RecursionError
  | HTTPError
  | RequestException
  | DatabaseError
  | UnicodeEncodeError
  | OtherError

text \<open>\<^verbatim>\<open>d[k] = v\<close>: an existing key keeps its position, a new key goes last.\<close>

fun dict_set :: "string \<Rightarrow> json \<Rightarrow> dict \<Rightarrow> dict" where
  "dict_set k v [] = [(k, v)]"
| "dict_set k v ((k', v') # d) =
     (if k' = k then (k, v) # d else (k', v') # dict_set k v d)"

text \<open>\<^verbatim>\<open>d.get(k)\<close>: the value, or \<^verbatim>\<open>None\<close> when the key is absent.\<close>

definition dict_get :: "dict \<Rightarrow> string \<Rightarrow> json" where
  "dict_get d k = (case map_of d k of None \<Rightarrow> JNull | Some v \<Rightarrow> v)"

text \<open>Truth value of an object, as \<^verbatim>\<open>if x:\<close> and \<^verbatim>\<open>not x\<close> test it.\<close>

fun truthy :: "json \<Rightarrow> bool" where
  "truthy JNull = False"
| "truthy (JBool b) = b"
| "truthy (JInt i) = (i \<noteq> 0)"
| "truthy (JFloat f) = (f \<noteq> Finite 0)"
| "truthy (JStr s) = (s \<noteq> [])"
| "truthy (JList xs) = (xs \<noteq> [])"
| "truthy (JObj d) = (d \<noteq> [])"

text \<open>Lists and dictionaries are unhashable: a set membership test on them raises.\<close>

fun hashable :: "json \<Rightarrow> bool" where
  "hashable (JList xs) = False"
| "hashable (JObj d) = False"
| "hashable v = True"

text \<open>
  Equality of hashable values: booleans, integers and finite floats compare by numeric
  value (\<^verbatim>\<open>True == 1 == 1.0\<close>), everything else structurally.
\<close>

fun py_num :: "json \<Rightarrow> rat option" where
  "py_num (JBool b) = Some (if b then 1 else 0)"
| "py_num (JInt i) = Some (of_int i)"
| "py_num (JFloat (Finite r)) = Some r"
| "py_num v = None"

definition py_eq :: "json \<Rightarrow> json \<Rightarrow> bool" where
  "py_eq a b =
     (case (py_num a, py_num b) of (Some x, Some y) \<Rightarrow> x = y | _ \<Rightarrow> a = b)"

text \<open>Slices \<^verbatim>\<open>xs[a:b]\<close>, \<^verbatim>\<open>xs[a:]\<close> and \<^verbatim>\<open>xs[:b]\<close>: a negative bound counts from the end,
  and every bound is clamped to the list.\<close>

definition clamp_index :: "nat \<Rightarrow> int \<Rightarrow> nat" where
  "clamp_index n i = (if i < 0 then nat (max 0 (int n + i)) else min n (nat i))"

definition py_slice :: "'a list \<Rightarrow> int \<Rightarrow> int \<Rightarrow> 'a list" where
  "py_slice xs a b =
     (let lo = clamp_index (length xs) a; hi = clamp_index (length xs) b
      in take (hi - lo) (drop lo xs))"

definition py_slice_from :: "'a list \<Rightarrow> int \<Rightarrow> 'a list" where
  "py_slice_from xs a = drop (clamp_index (length xs) a) xs"

definition py_slice_to :: "'a list \<Rightarrow> int \<Rightarrow> 'a list" where
  "py_slice_to xs b = take (clamp_index (length xs) b) xs"

text \<open>\<^verbatim>\<open>s.find(c)\<close> and \<^verbatim>\<open>s.rfind(c)\<close> for a one-character needle: the index of the first
  (last) occurrence, or \<open>-1\<close>.\<close>

definition str_find :: "char \<Rightarrow> string \<Rightarrow> int" where
  "str_find c s =
     (if c \<in> set s then int (length (takeWhile (\<lambda>x. x \<noteq> c) s)) else - 1)"

definition str_rfind :: "char \<Rightarrow> string \<Rightarrow> int" where
  "str_rfind c s =
     (if c \<in> set s
      then int (length s) - 1 - int (length (takeWhile (\<lambda>x. x \<noteq> c) (rev s)))
      else - 1)"

section \<open>Query router (agents/router.py)\<close>

definition allowed_intents :: "string list" where
  "allowed_intents =
     [''search_property'', ''estimate_renovation'', ''generate_report'',
      ''save_preference'', ''web_research'', ''general_query'']"

definition default_result :: json where
  "default_result =
     JObj [(''in_scope'', JBool True),
           (''intents'', JList [JStr ''general_query'']),
           (''slots'', JObj [])]"

text \<open>
  The loop of \<^verbatim>\<open>_validate_and_clean\<close> that removes duplicates. \<^verbatim>\<open>intent not in seen\<close>
  hashes \<^verbatim>\<open>intent\<close>, so an unhashable element raises \<^verbatim>\<open>TypeError\<close>.
\<close>

fun remove_duplicates :: "json list \<Rightarrow> json list \<Rightarrow> json list \<Rightarrow> py_error + json list" where
  "remove_duplicates seen unique_intents [] = Inr unique_intents"
| "remove_duplicates seen unique_intents (intent # rest) =
     (if \<not> hashable intent then Inl TypeError
      else if \<not> (\<exists>s \<in> set seen. py_eq intent s)
        then remove_duplicates (intent # seen) (unique_intents @ [intent]) rest
        else remove_duplicates seen unique_intents rest)"

text \<open>\<^verbatim>\<open>intent in allowed_intents\<close>, a set of strings: only a string can be a member.\<close>

fun in_allowed :: "json \<Rightarrow> bool" where
  "in_allowed (JStr s) = (s \<in> set allowed_intents)"
| "in_allowed v = False"

text \<open>
  \<^verbatim>\<open>_validate_and_clean(result)\<close>. The decoded value is a dictionary whenever the decoder is
  given a text that starts with a brace; on any other value the first subscript
  assignment or membership test raises \<^verbatim>\<open>TypeError\<close>.
\<close>

definition ensure_intents_list :: "dict \<Rightarrow> dict" where
  "ensure_intents_list d =
     (case map_of d ''intents'' of
        None \<Rightarrow> dict_set ''intents'' (JList [JStr ''general_query'']) d
      | Some (JList xs) \<Rightarrow> d
      | Some v \<Rightarrow> dict_set ''intents'' (JList [v]) d)"

text \<open>The part after the loop: the filter on the enumeration, the default, and the two
  keys that must exist.\<close>

definition store_validated :: "dict \<Rightarrow> json list \<Rightarrow> dict" where
  "store_validated d1 unique_intents =
     (let validated_intents = filter in_allowed unique_intents;
          validated_intents' =
            (if validated_intents = [] then [JStr ''general_query''] else validated_intents);
          d2 = dict_set ''intents'' (JList validated_intents') d1;
          d3 = (if map_of d2 ''slots'' = None then dict_set ''slots'' (JObj []) d2 else d2);
          d4 = (if map_of d3 ''in_scope'' = None
                then dict_set ''in_scope'' (JBool True) d3 else d3)
      in d4)"

definition validate_and_clean :: "json \<Rightarrow> py_error + json" where
  "validate_and_clean result =
     (case result of
        JObj d \<Rightarrow>
          (let d1 = ensure_intents_list d;
               intents = (case map_of d1 ''intents'' of Some (JList xs) \<Rightarrow> xs | _ \<Rightarrow> [])
           in case remove_duplicates [] [] intents of
                Inl e \<Rightarrow> Inl e
              | Inr unique_intents \<Rightarrow> Inr (JObj (store_validated d1 unique_intents)))
      | _ \<Rightarrow> Inl TypeError)"

text \<open>The intents of a classification result, read as a list of values.\<close>

definition result_intents :: "json \<Rightarrow> json list" where
  "result_intents result =
     (case result of
        JObj d \<Rightarrow> (case map_of d ''intents'' of Some (JList xs) \<Rightarrow> xs | _ \<Rightarrow> [])
      | _ \<Rightarrow> [])"

text \<open>The sequence the duplicate-removal loop runs over: the decoded \<^verbatim>\<open>intents\<close> entry,
  a one-element list around it when it is not a list, \<^verbatim>\<open>['general_query']\<close> when absent.\<close>

definition input_intents :: "dict \<Rightarrow> json list" where
  "input_intents d =
     (case map_of d ''intents'' of
        None \<Rightarrow> [JStr ''general_query'']
      | Some (JList xs) \<Rightarrow> xs
      | Some v \<Rightarrow> [v])"

text \<open>
  Two functions to state what validation computes: the enumerated intent names that
  occur in a list of values, in order, and a list of names cut down to the first
  occurrence of each name not seen before.
\<close>

fun allowed_names :: "json list \<Rightarrow> string list" where
  "allowed_names [] = []"
| "allowed_names (JStr s # vs) =
     (if s \<in> set allowed_intents then s # allowed_names vs else allowed_names vs)"
| "allowed_names (v # vs) = allowed_names vs"

fun first_occurrences :: "string list \<Rightarrow> string list \<Rightarrow> string list" where
  "first_occurrences seen [] = []"
| "first_occurrences seen (x # xs) =
     (if x \<in> set seen then first_occurrences seen xs
      else x # first_occurrences (x # seen) xs)"

text \<open>Subscripts \<^verbatim>\<open>v[key]\<close> with a string key and \<^verbatim>\<open>v[i]\<close> with an integer index.\<close>

fun py_getitem :: "json \<Rightarrow> string \<Rightarrow> py_error + json" where
  "py_getitem (JObj d) k = (case map_of d k of None \<Rightarrow> Inl KeyError | Some v \<Rightarrow> Inr v)"
| "py_getitem v k = Inl TypeError"

definition list_index :: "'a list \<Rightarrow> int \<Rightarrow> py_error + 'a" where
  "list_index xs i =
     (if 0 \<le> i \<and> i < int (length xs) then Inr (xs ! nat i)
      else if i < 0 \<and> - int (length xs) \<le> i then Inr (xs ! nat (int (length xs) + i))
      else Inl IndexError)"

fun py_getitem_int :: "json \<Rightarrow> int \<Rightarrow> py_error + json" where
  "py_getitem_int (JList xs) i = list_index xs i"
| "py_getitem_int (JStr s) i =
     (case list_index s i of Inl e \<Rightarrow> Inl e | Inr c \<Rightarrow> Inr (JStr [c]))"
| "py_getitem_int (JObj d) i = Inl KeyError"
| "py_getitem_int v i = Inl TypeError"

text \<open>An HTTP reply as \<^verbatim>\<open>requests\<close> returns it.\<close>

record http_response =
  status_code :: nat
  body :: string

text \<open>
  The collaborators outside the repository, over an abstract state \<open>'w\<close> of the outside
  world (network, databases, file system, clock). Each call returns its result or the
  exception it raises, and the world after the call.
\<close>

record 'w env =
  json_loads :: "string \<Rightarrow> py_error + json"
  json_dumps :: "json \<Rightarrow> py_error + string"
  py_str :: "json \<Rightarrow> string"
  requests_post :: "string \<Rightarrow> 'w \<Rightarrow> (py_error + http_response) \<times> 'w"
  now_isoformat :: "'w \<Rightarrow> string"
  db_fetch :: "string \<Rightarrow> json list \<Rightarrow> 'w \<Rightarrow> (py_error + json list) \<times> 'w"
  db_connect :: "'w \<Rightarrow> (py_error + unit) \<times> 'w"
  redis_setex :: "string \<Rightarrow> nat \<Rightarrow> string \<Rightarrow> 'w \<Rightarrow> (py_error + unit) \<times> 'w"
  redis_get :: "string \<Rightarrow> 'w \<Rightarrow> (py_error + string option) \<times> 'w"
  format_property :: "json \<Rightarrow> py_error + string"
  renovation_estimate :: "json \<Rightarrow> json \<Rightarrow> py_error + string"
  report_generate :: "json \<Rightarrow> 'w \<Rightarrow> (py_error + string) \<times> 'w"
  web_research :: "string \<Rightarrow> 'w \<Rightarrow> (py_error + string) \<times> 'w"
  rag_answer :: "string \<Rightarrow> json \<Rightarrow> 'w \<Rightarrow> (py_error + string \<times> string list) \<times> 'w"
  py_print :: "string \<Rightarrow> 'w \<Rightarrow> (py_error + unit) \<times> 'w"
  json_error_text :: "string \<Rightarrow> string"
  db_upsert :: "string \<Rightarrow> string \<Rightarrow> json \<Rightarrow> 'w \<Rightarrow> (py_error + unit) \<times> 'w"
  db_close :: "'w \<Rightarrow> (py_error + unit) \<times> 'w"

text \<open>\<^verbatim>\<open>_build_prompt\<close>: the user's text inside a fixed instruction block (the worked
  examples of the block are left out here; the completion service is an arbitrary
  function of the prompt).\<close>

definition build_prompt :: "string \<Rightarrow> string" where
  "build_prompt user_query =
     ''You are a real estate query analyzer. Analyze the query and return ONLY valid JSON (no other text).\<newline>\<newline>Query: ''
     @ user_query
     @ ''\<newline>\<newline>Now analyze this query and return ONLY the JSON:''"

text \<open>
  \<^verbatim>\<open>_call_llm\<close>: one POST; \<^verbatim>\<open>raise_for_status\<close> raises on a 4xx or 5xx status; then the
  reply body is decoded and \<^verbatim>\<open>result["choices"][0]["message"]["content"]\<close> is returned.
  Nothing is caught.
\<close>

definition call_llm :: "'w env \<Rightarrow> string \<Rightarrow> 'w \<Rightarrow> (py_error + json) \<times> 'w" where
  "call_llm E prompt w =
     (case requests_post E prompt w of
        (Inl e, w') \<Rightarrow> (Inl e, w')
      | (Inr response, w') \<Rightarrow>
          (if 400 \<le> status_code response \<and> status_code response < 600
           then (Inl HTTPError, w')
           else (case json_loads E (body response) of
                   Inl e \<Rightarrow> (Inl e, w')
                 | Inr result \<Rightarrow>
                     (case py_getitem result ''choices'' of
                        Inl e \<Rightarrow> (Inl e, w')
                      | Inr choices \<Rightarrow>
                          (case py_getitem_int choices 0 of
                             Inl e \<Rightarrow> (Inl e, w')
                           | Inr choice \<Rightarrow>
                               (case py_getitem choice ''message'' of
                                  Inl e \<Rightarrow> (Inl e, w')
                                | Inr message \<Rightarrow> (py_getitem message ''content'', w')))))))"

text \<open>
  \<^verbatim>\<open>print(line)\<close>, once per line: the write to standard output raises when the stream
  does not take the text (\<^verbatim>\<open>UnicodeEncodeError\<close> on a character outside its encoding),
  and the lines after it are not written.
\<close>

fun print_lines :: "'w env \<Rightarrow> string list \<Rightarrow> 'w \<Rightarrow> (py_error + unit) \<times> 'w" where
  "print_lines E [] w = (Inr (), w)"
| "print_lines E (line # lines) w =
     (case py_print E line w of
        (Inl e, w') \<Rightarrow> (Inl e, w')
      | (Inr u, w') \<Rightarrow> print_lines E lines w')"

text \<open>The lines \<^verbatim>\<open>_extract_json\<close> prints when the reply has no braces, and when its braced
  part does not decode; \<open>json_error_text\<close> is the message of the decoder's exception.\<close>

definition no_json_lines :: "string \<Rightarrow> string list" where
  "no_json_lines text =
     [''\<newline>Warning: No JSON found in response'',
      ''Raw LLM response: '' @ py_slice_to text 200]"

definition parse_error_lines :: "'w env \<Rightarrow> string \<Rightarrow> string \<Rightarrow> string list" where
  "parse_error_lines E text json_str =
     [''\<newline>Error: Failed to parse JSON'',
      ''Raw LLM response: '' @ text,
      ''Extracted JSON string: '' @ json_str,
      ''JSON Error: '' @ json_error_text E json_str]"

text \<open>
  \<^verbatim>\<open>_extract_json(text)\<close>. Only the \<^verbatim>\<open>JSONDecodeError\<close> of \<^verbatim>\<open>json.loads\<close> is caught. Both
  fallbacks print before they return the default, and an exception of a print leaves the
  method.
\<close>

definition extract_json :: "'w env \<Rightarrow> string \<Rightarrow> 'w \<Rightarrow> (py_error + json) \<times> 'w" where
  "extract_json E text w =
     (let start = str_find (CHR ''{'') text;
          end = str_rfind (CHR ''}'') text + 1
      in if start = - 1 \<or> end = 0
         then (case print_lines E (no_json_lines text) w of
                 (Inl e, w') \<Rightarrow> (Inl e, w')
               | (Inr u, w') \<Rightarrow> (Inr default_result, w'))
         else (let json_str = py_slice text start end
               in case json_loads E json_str of
                    Inr result \<Rightarrow> (validate_and_clean result, w)
                  | Inl JSONDecodeError \<Rightarrow>
                      (case print_lines E (parse_error_lines E text json_str) w of
                         (Inl e, w') \<Rightarrow> (Inl e, w')
                       | (Inr u, w') \<Rightarrow> (Inr default_result, w'))
                  | Inl e \<Rightarrow> (Inl e, w)))"

text \<open>The strings of a list of values: how the validated intents, all of them strings,
  are handed to the planner.\<close>

fun str_values :: "json list \<Rightarrow> string list" where
  "str_values [] = []"
| "str_values (JStr s # vs) = s # str_values vs"
| "str_values (v # vs) = str_values vs"

text \<open>
  The part of \<^verbatim>\<open>route\<close> after \<^verbatim>\<open>_extract_json\<close>: the query type, the intents and the
  slots. After validation \<^verbatim>\<open>intents\<close> is always a list; the branch for another value is
  never taken.
\<close>

definition classify :: "json \<Rightarrow> py_error + string \<times> string list \<times> json" where
  "classify result =
     (case py_getitem result ''in_scope'' of
        Inl e \<Rightarrow> Inl e
      | Inr in_scope \<Rightarrow>
          (if \<not> truthy in_scope then Inr (''out_of_scope'', [], JObj [])
           else (case result of
                   JObj d \<Rightarrow>
                     (let slots = (case map_of d ''slots'' of None \<Rightarrow> JObj [] | Some v \<Rightarrow> v)
                      in case map_of d ''intents'' of
                           None \<Rightarrow> Inr (''complex-query'', [], slots)
                         | Some (JList intents) \<Rightarrow>
                             (if length intents = 1
                              then Inr (''simple-query'', str_values intents, slots)
                              else Inr (''complex-query'', str_values intents, slots))
                         | Some v \<Rightarrow> Inl TypeError)
                 | _ \<Rightarrow> Inl TypeError)))"

text \<open>\<^verbatim>\<open>route(user_input)\<close>. A completion that is not a string has no \<^verbatim>\<open>find\<close> method.\<close>

definition route :: "'w env \<Rightarrow> string \<Rightarrow> 'w \<Rightarrow> (py_error + string \<times> string list \<times> json) \<times> 'w" where
  "route E user_input w =
     (case call_llm E (build_prompt user_input) w of
        (Inl e, w') \<Rightarrow> (Inl e, w')
      | (Inr (JStr llm_response), w') \<Rightarrow>
          (case extract_json E llm_response w' of
             (Inl e, w2) \<Rightarrow> (Inl e, w2)
           | (Inr result, w2) \<Rightarrow> (classify result, w2))
      | (Inr v, w') \<Rightarrow> (Inl AttributeError, w'))"

section \<open>Planner (agents/planner.py)\<close>

record task =
  agent :: string
  params :: dict

definition agent_params :: "(string \<times> string list) list" where
  "agent_params =
     [(''search_property'', [''location'', ''num_rooms'', ''max_price'', ''property_size_sqft'']),
      (''estimate_renovation'', [''property_size_sqft'', ''num_rooms'']),
      (''generate_report'', []),
      (''save_preference'', [''location'', ''num_rooms'', ''max_price'']),
      (''web_research'', []),
      (''general_query'', [''certificate_keywords''])]"

definition relevant_keys :: "string \<Rightarrow> string list" where
  "relevant_keys intent = (case map_of agent_params intent of None \<Rightarrow> [] | Some ks \<Rightarrow> ks)"

definition is_substring :: "string \<Rightarrow> string \<Rightarrow> bool" where
  "is_substring k s =
     list_ex (\<lambda>i. take (length k) (drop i s) = k) [0..<Suc (length s)]"

text \<open>\<^verbatim>\<open>key in slots\<close>: a key test on a dictionary, a membership test on a list, a substring
  test on a string, and \<^verbatim>\<open>TypeError\<close> on anything else.\<close>

fun py_contains :: "json \<Rightarrow> string \<Rightarrow> py_error + bool" where
  "py_contains (JObj d) k = Inr (map_of d k \<noteq> None)"
| "py_contains (JList xs) k = Inr (JStr k \<in> set xs)"
| "py_contains (JStr s) k = Inr (is_substring k s)"
| "py_contains v k = Inl TypeError"

text \<open>The dictionary comprehension of \<^verbatim>\<open>_extract_relevant_params\<close>, key by key in the order
  of the allow-list.\<close>

fun project_slots :: "json \<Rightarrow> string list \<Rightarrow> py_error + dict" where
  "project_slots slots [] = Inr []"
| "project_slots slots (key # keys) =
     (case py_contains slots key of
        Inl e \<Rightarrow> Inl e
      | Inr False \<Rightarrow> project_slots slots keys
      | Inr True \<Rightarrow>
          (case py_getitem slots key of
             Inl e \<Rightarrow> Inl e
           | Inr v \<Rightarrow>
               (if v \<noteq> JNull
                then (case project_slots slots keys of
                        Inl e \<Rightarrow> Inl e
                      | Inr ps \<Rightarrow> Inr ((key, v) # ps))
                else project_slots slots keys)))"

definition extract_relevant_params :: "string \<Rightarrow> json \<Rightarrow> py_error + dict" where
  "extract_relevant_params intent slots = project_slots slots (relevant_keys intent)"

definition plan_simple :: "string list \<Rightarrow> json \<Rightarrow> py_error + task list" where
  "plan_simple intents slots =
     (case intents of
        [] \<Rightarrow> Inr [\<lparr>agent = ''general_query'', params = []\<rparr>]
      | intent # _ \<Rightarrow>
          (case extract_relevant_params intent slots of
             Inl e \<Rightarrow> Inl e
           | Inr ps \<Rightarrow> Inr [\<lparr>agent = intent, params = ps\<rparr>]))"

fun plan_tasks :: "string list \<Rightarrow> json \<Rightarrow> py_error + task list" where
  "plan_tasks [] slots = Inr []"
| "plan_tasks (intent # intents) slots =
     (case extract_relevant_params intent slots of
        Inl e \<Rightarrow> Inl e
      | Inr ps \<Rightarrow>
          (case plan_tasks intents slots of
             Inl e \<Rightarrow> Inl e
           | Inr tasks \<Rightarrow> Inr (\<lparr>agent = intent, params = ps\<rparr> # tasks)))"

definition plan_complex :: "string list \<Rightarrow> json \<Rightarrow> py_error + task list" where
  "plan_complex intents slots =
     (if intents = [] then Inr [\<lparr>agent = ''general_query'', params = []\<rparr>]
      else plan_tasks intents slots)"

definition plan :: "string \<Rightarrow> string list \<Rightarrow> json \<Rightarrow> py_error + task list" where
  "plan query_type intents slots =
     (if query_type = ''out_of_scope'' then Inr []
      else if query_type = ''simple-query'' then plan_simple intents slots
      else if query_type = ''complex-query'' then plan_complex intents slots
      else plan_simple intents slots)"

section \<open>Memory (agents/memory.py)\<close>

record turn =
  role :: string
  content :: string
  timestamp :: string

text \<open>
  One chatbot instance: the fields of its \<^verbatim>\<open>Memory\<close> object, the table \<^verbatim>\<open>user_memory\<close> of
  the durable store (unique on user id and key), and the outside world.
\<close>

record 'w bot =
  user_id :: string
  episodic :: "turn list"
  redis_available :: bool
  shortterm :: dict
  user_memory :: "string \<times> string \<Rightarrow> json option"
  world :: 'w

definition add_message :: "'w env \<Rightarrow> string \<Rightarrow> string \<Rightarrow> 'w bot \<Rightarrow> 'w bot" where
  "add_message E r c st =
     st\<lparr>episodic := episodic st
          @ [\<lparr>role = r, content = c, timestamp = now_isoformat E (world st)\<rparr>]\<rparr>"

text \<open>\<^verbatim>\<open>get_conversation_history(last_n)\<close>; \<open>None\<close> is the omitted argument.\<close>

definition get_conversation_history :: "int option \<Rightarrow> 'w bot \<Rightarrow> turn list" where
  "get_conversation_history last_n st =
     (case last_n of
        None \<Rightarrow> episodic st
      | Some n \<Rightarrow> (if n \<noteq> 0 then py_slice_from (episodic st) (- n) else episodic st))"

definition clear_conversation :: "'w bot \<Rightarrow> 'w bot" where
  "clear_conversation st = st\<lparr>episodic := []\<rparr>"

definition full_key :: "'w bot \<Rightarrow> string \<Rightarrow> string" where
  "full_key st key = ''session:'' @ user_id st @ '':'' @ key"

definition set_context :: "'w env \<Rightarrow> string \<Rightarrow> json \<Rightarrow> 'w bot \<Rightarrow> (py_error + unit) \<times> 'w bot" where
  "set_context E key v st =
     (if redis_available st
      then (case json_dumps E v of
              Inl e \<Rightarrow> (Inl e, st)
            | Inr s \<Rightarrow>
                (case redis_setex E (full_key st key) 3600 s (world st) of
                   (r, w') \<Rightarrow> (r, st\<lparr>world := w'\<rparr>)))
      else (Inr (), st\<lparr>shortterm := dict_set (full_key st key) v (shortterm st)\<rparr>))"

definition get_context :: "'w env \<Rightarrow> string \<Rightarrow> 'w bot \<Rightarrow> (py_error + json) \<times> 'w bot" where
  "get_context E key st =
     (if redis_available st
      then (case redis_get E (full_key st key) (world st) of
              (Inl e, w') \<Rightarrow> (Inl e, st\<lparr>world := w'\<rparr>)
            | (Inr None, w') \<Rightarrow> (Inr JNull, st\<lparr>world := w'\<rparr>)
            | (Inr (Some s), w') \<Rightarrow>
                (if s = [] then (Inr JNull, st\<lparr>world := w'\<rparr>)
                 else (json_loads E s, st\<lparr>world := w'\<rparr>)))
      else (Inr (dict_get (shortterm st) (full_key st key)), st))"

text \<open>
  \<^verbatim>\<open>save_preference(key, value)\<close>: an upsert on \<^verbatim>\<open>(user_id, memory_key)\<close>. \<open>db_connect\<close> is
  the connection, the cursor and \<^verbatim>\<open>CREATE TABLE IF NOT EXISTS\<close>; \<open>db_upsert\<close> is the
  \<^verbatim>\<open>INSERT ... ON CONFLICT\<close> with its three parameters (the user id, the key and the
  value) and the commit; \<open>db_close\<close> closes the cursor and the connection. Nothing is
  caught. \<open>user_memory\<close> holds, per user id and key, the parameter of the last upsert that
  was committed.
\<close>

definition save_preference :: "'w env \<Rightarrow> string \<Rightarrow> json \<Rightarrow> 'w bot \<Rightarrow> (py_error + unit) \<times> 'w bot" where
  "save_preference E key v st =
     (case db_connect E (world st) of
        (Inl e, w1) \<Rightarrow> (Inl e, st\<lparr>world := w1\<rparr>)
      | (Inr u1, w1) \<Rightarrow>
          (case db_upsert E (user_id st) key v w1 of
             (Inl e, w2) \<Rightarrow> (Inl e, st\<lparr>world := w2\<rparr>)
           | (Inr u2, w2) \<Rightarrow>
               (case db_close E w2 of
                  (r, w3) \<Rightarrow>
                    (r, st\<lparr>world := w3,
                           user_memory := (user_memory st)((user_id st, key) \<mapsto> v)\<rparr>))))"

section \<open>Structured search (agents/structured_agent.py)\<close>

text \<open>\<^verbatim>\<open>str(v)\<close> and the rendering of \<^verbatim>\<open>v\<close> in an f-string: a string is itself.\<close>

definition str_of :: "'w env \<Rightarrow> json \<Rightarrow> string" where
  "str_of E v = (case v of JStr s \<Rightarrow> s | _ \<Rightarrow> py_str E v)"

text \<open>\<^verbatim>\<open>_build_query(filters)\<close>: the query text and its parameter list.\<close>

definition build_query :: "'w env \<Rightarrow> dict \<Rightarrow> string \<times> json list" where
  "build_query E filters =
     (let q0 = ''SELECT * FROM properties WHERE 1=1''; p0 = [];
          (q1, p1) = (if truthy (dict_get filters ''location'')
                      then (q0 @ '' AND location ILIKE %s'',
                            p0 @ [JStr (''%'' @ str_of E (dict_get filters ''location'') @ ''%'')])
                      else (q0, p0));
          (q2, p2) = (if truthy (dict_get filters ''num_rooms'')
                      then (q1 @ '' AND num_rooms = %s'', p1 @ [dict_get filters ''num_rooms''])
                      else (q1, p1));
          (q3, p3) = (if truthy (dict_get filters ''max_price'')
                      then (q2 @ '' AND price <= %s'', p2 @ [dict_get filters ''max_price''])
                      else (q2, p2));
          (q4, p4) = (if truthy (dict_get filters ''min_price'')
                      then (q3 @ '' AND price >= %s'', p3 @ [dict_get filters ''min_price''])
                      else (q3, p3));
          (q5, p5) = (if truthy (dict_get filters ''property_size_sqft'')
                      then (q4 @ '' AND property_size_sqft >= %s'',
                            p4 @ [dict_get filters ''property_size_sqft''])
                      else (q4, p4))
      in (q5 @ '' ORDER BY price ASC LIMIT 10'', p5))"

definition search_properties :: "'w env \<Rightarrow> dict \<Rightarrow> 'w \<Rightarrow> (py_error + json list) \<times> 'w" where
  "search_properties E filters w =
     (case build_query E filters of (query, ps) \<Rightarrow> db_fetch E query ps w)"

section \<open>Chatbot (chat.py)\<close>

fun format_properties :: "'w env \<Rightarrow> json list \<Rightarrow> py_error + string" where
  "format_properties E [] = Inr []"
| "format_properties E (prop # props) =
     (case format_property E prop of
        Inl e \<Rightarrow> Inl e
      | Inr line \<Rightarrow>
          (case format_properties E props of
             Inl e \<Rightarrow> Inl e
           | Inr lines \<Rightarrow> Inr (line @ lines)))"

text \<open>\<^verbatim>\<open>_handle_search\<close>. \<open>format_property\<close> is the line the f-strings build for one row
  (a missing column raises). Nothing is stored when no property is found.\<close>

definition handle_search :: "'w env \<Rightarrow> dict \<Rightarrow> 'w bot \<Rightarrow> (py_error + string) \<times> 'w bot" where
  "handle_search E slots st =
     (case search_properties E slots (world st) of
        (Inl e, w') \<Rightarrow> (Inl e, st\<lparr>world := w'\<rparr>)
      | (Inr properties, w') \<Rightarrow>
          (let st1 = st\<lparr>world := w'\<rparr> in
           if properties = []
           then (Inr (''No properties found matching your criteria: '' @ py_str E (JObj slots)), st1)
           else (case format_properties E (py_slice_to properties 10) of
                   Inl e \<Rightarrow> (Inl e, st1)
                 | Inr lines \<Rightarrow>
                     (let response =
                            ''Found '' @ py_str E (JInt (int (length properties)))
                            @ '' properties:\<newline>\<newline>'' @ lines
                            @ (if length properties > 10
                               then ''\<newline>... and ''
                                    @ py_str E (JInt (int (length properties) - 10))
                                    @ '' more properties''
                               else [])
                      in case set_context E ''last_search_results'' (JList properties) st1 of
                           (Inl e, st2) \<Rightarrow> (Inl e, st2)
                         | (Inr u, st2) \<Rightarrow> (Inr response, st2)))))"

definition handle_renovation :: "'w env \<Rightarrow> dict \<Rightarrow> 'w bot \<Rightarrow> (py_error + string) \<times> 'w bot" where
  "handle_renovation E slots st =
     (renovation_estimate E (dict_get slots ''property_size_sqft'') (dict_get slots ''num_rooms''),
      st)"

text \<open>\<^verbatim>\<open>properties[:10]\<close> on whatever the session store returned.\<close>

fun first_ten :: "json \<Rightarrow> py_error + json" where
  "first_ten (JList xs) = Inr (JList (py_slice_to xs 10))"
| "first_ten (JStr s) = Inr (JStr (py_slice_to s 10))"
| "first_ten v = Inl TypeError"

definition handle_report :: "'w env \<Rightarrow> dict \<Rightarrow> 'w bot \<Rightarrow> (py_error + string) \<times> 'w bot" where
  "handle_report E slots st =
     (case get_context E ''last_search_results'' st of
        (Inl e, st1) \<Rightarrow> (Inl e, st1)
      | (Inr properties, st1) \<Rightarrow>
          (if \<not> truthy properties
           then (Inr ''No recent property searches found. Please search for properties first.'', st1)
           else (case first_ten properties of
                   Inl e \<Rightarrow> (Inl e, st1)
                 | Inr properties' \<Rightarrow>
                     (if \<not> truthy properties'
                      then (Inr ''Could not generate report. Please search for properties first.'',
                            st1)
                      else (case report_generate E properties' (world st1) of
                              (Inl e, w') \<Rightarrow> (Inl e, st1\<lparr>world := w'\<rparr>)
                            | (Inr pdf_path, w') \<Rightarrow>
                                (Inr (''Report generated successfully! Saved to: '' @ pdf_path),
                                 st1\<lparr>world := w'\<rparr>))))))"

text \<open>One \<^verbatim>\<open>if slots.get(k): self.memory.save_preference(...)\<close> of \<^verbatim>\<open>_handle_save_preference\<close>.\<close>

definition save_if :: "'w env \<Rightarrow> dict \<Rightarrow> string \<Rightarrow> string \<Rightarrow> (json \<Rightarrow> json) \<Rightarrow> 'w bot
    \<Rightarrow> (py_error + unit) \<times> 'w bot" where
  "save_if E slots slot key conv st =
     (if truthy (dict_get slots slot) then save_preference E key (conv (dict_get slots slot)) st
      else (Inr (), st))"

definition handle_save_preference :: "'w env \<Rightarrow> dict \<Rightarrow> string \<Rightarrow> 'w bot
    \<Rightarrow> (py_error + string) \<times> 'w bot" where
  "handle_save_preference E slots user_input st =
     (case save_if E slots ''max_price'' ''budget'' (\<lambda>v. JStr (str_of E v)) st of
        (Inl e, st1) \<Rightarrow> (Inl e, st1)
      | (Inr u1, st1) \<Rightarrow>
          (case save_if E slots ''location'' ''preferred_location'' (\<lambda>v. v) st1 of
             (Inl e, st2) \<Rightarrow> (Inl e, st2)
           | (Inr u2, st2) \<Rightarrow>
               (case save_if E slots ''num_rooms'' ''preferred_rooms'' (\<lambda>v. JStr (str_of E v)) st2 of
                  (Inl e, st3) \<Rightarrow> (Inl e, st3)
                | (Inr u3, st3) \<Rightarrow>
                    (Inr ''Preferences saved! I'll remember them for future searches.'', st3))))"

text \<open>\<open>web_research\<close> is \<^verbatim>\<open>self.web_agent.research(user_input)['summary']\<close>.\<close>

definition handle_web_research :: "'w env \<Rightarrow> string \<Rightarrow> 'w bot \<Rightarrow> (py_error + string) \<times> 'w bot" where
  "handle_web_research E user_input st =
     (case web_research E user_input (world st) of (r, w') \<Rightarrow> (r, st\<lparr>world := w'\<rparr>))"

text \<open>\<^verbatim>\<open>sep.join(xs)\<close>.\<close>

fun str_join :: "string \<Rightarrow> string list \<Rightarrow> string" where
  "str_join sep [] = []"
| "str_join sep [x] = x"
| "str_join sep (x # y # xs) = x @ sep @ str_join sep (y # xs)"

text \<open>\<open>rag_answer\<close> returns the \<^verbatim>\<open>answer\<close> and the \<^verbatim>\<open>sources\<close> of the dictionary
  \<^verbatim>\<open>self.rag_agent.answer\<close> builds.\<close>

definition handle_general_query :: "'w env \<Rightarrow> string \<Rightarrow> dict \<Rightarrow> 'w bot
    \<Rightarrow> (py_error + string) \<times> 'w bot" where
  "handle_general_query E user_input ps st =
     (case rag_answer E user_input (dict_get ps ''certificate_keywords'') (world st) of
        (Inl e, w') \<Rightarrow> (Inl e, st\<lparr>world := w'\<rparr>)
      | (Inr (answer, sources), w') \<Rightarrow>
          (Inr (if sources \<noteq> []
                then answer @ ''\<newline>\<newline>Sources: '' @ str_join '', '' sources
                else answer),
           st\<lparr>world := w'\<rparr>))"

definition execute_task :: "'w env \<Rightarrow> task \<Rightarrow> string \<Rightarrow> 'w bot \<Rightarrow> (py_error + string) \<times> 'w bot" where
  "execute_task E t user_input st =
     (if agent t = ''search_property'' then handle_search E (params t) st
      else if agent t = ''estimate_renovation'' then handle_renovation E (params t) st
      else if agent t = ''generate_report'' then handle_report E (params t) st
      else if agent t = ''save_preference'' then handle_save_preference E (params t) user_input st
      else if agent t = ''web_research'' then handle_web_research E user_input st
      else if agent t = ''general_query'' then handle_general_query E user_input (params t) st
      else (Inr ''I'm not sure how to help with that.'', st))"

text \<open>\<^verbatim>\<open>s.replace('_', ' ')\<close> and \<^verbatim>\<open>s.title()\<close> on ASCII text: a letter that follows a letter
  is lowered, any other letter is raised.\<close>

definition replace_underscores :: "string \<Rightarrow> string" where
  "replace_underscores s = map (\<lambda>c. if c = CHR ''_'' then CHR '' '' else c) s"

definition is_lower :: "char \<Rightarrow> bool" where
  "is_lower c = (97 \<le> (of_char c :: nat) \<and> (of_char c :: nat) \<le> 122)"

definition is_upper :: "char \<Rightarrow> bool" where
  "is_upper c = (65 \<le> (of_char c :: nat) \<and> (of_char c :: nat) \<le> 90)"

definition to_upper :: "char \<Rightarrow> char" where
  "to_upper c = (if is_lower c then char_of ((of_char c :: nat) - 32) else c)"

definition to_lower :: "char \<Rightarrow> char" where
  "to_lower c = (if is_upper c then char_of ((of_char c :: nat) + 32) else c)"

fun title_from :: "bool \<Rightarrow> string \<Rightarrow> string" where
  "title_from previous_is_cased [] = []"
| "title_from previous_is_cased (c # cs) =
     (if is_lower c
      then (if previous_is_cased then c else to_upper c) # title_from True cs
      else if is_upper c
      then (if previous_is_cased then to_lower c else c) # title_from True cs
      else c # title_from False cs)"

definition title :: "string \<Rightarrow> string" where
  "title s = title_from False s"

definition agent_name :: "task \<Rightarrow> string" where
  "agent_name t = title (replace_underscores (agent t))"

definition labeled :: "task \<Rightarrow> string \<Rightarrow> string" where
  "labeled t response = ''**'' @ agent_name t @ '':**\<newline>'' @ response"

text \<open>The debug line \<^verbatim>\<open>_execute_complex_tasks\<close> prints before task \<open>i + 1\<close> of \<open>n\<close>.\<close>

definition announce :: "'w env \<Rightarrow> nat \<Rightarrow> nat \<Rightarrow> task \<Rightarrow> 'w bot \<Rightarrow> (py_error + unit) \<times> 'w bot" where
  "announce E n i t st =
     (case py_print E (''[DEBUG] Executing task '' @ py_str E (JInt (int i + 1)) @ ''/''
                       @ py_str E (JInt (int n)) @ '': '' @ agent t) (world st) of
        (r, w') \<Rightarrow> (r, st\<lparr>world := w'\<rparr>))"

text \<open>The loop of \<^verbatim>\<open>_execute_complex_tasks\<close> from task \<open>i + 1\<close> of \<open>n\<close> on: an exception of
  the print or of a handler ends it.\<close>

fun run_tasks :: "'w env \<Rightarrow> nat \<Rightarrow> nat \<Rightarrow> task list \<Rightarrow> string \<Rightarrow> string list \<Rightarrow> 'w bot
    \<Rightarrow> (py_error + string list) \<times> 'w bot" where
  "run_tasks E n i [] user_input responses st = (Inr responses, st)"
| "run_tasks E n i (t # ts) user_input responses st =
     (case announce E n i t st of
        (Inl e, st1) \<Rightarrow> (Inl e, st1)
      | (Inr u, st1) \<Rightarrow>
          (case execute_task E t user_input st1 of
             (Inl e, st') \<Rightarrow> (Inl e, st')
           | (Inr response, st') \<Rightarrow>
               run_tasks E n (Suc i) ts user_input (responses @ [labeled t response]) st'))"

definition execute_complex_tasks :: "'w env \<Rightarrow> task list \<Rightarrow> string \<Rightarrow> 'w bot
    \<Rightarrow> (py_error + string) \<times> 'w bot" where
  "execute_complex_tasks E tasks user_input st =
     (case run_tasks E (length tasks) 0 tasks user_input [] st of
        (Inl e, st') \<Rightarrow> (Inl e, st')
      | (Inr responses, st') \<Rightarrow>
          (Inr (''\<newline>\<newline>'' @ str_join ''\<newline>\<newline>---\<newline>\<newline>'' responses), st'))"

text \<open>A task as the dictionary the planner builds, for the debug line that prints the
  plan.\<close>

definition task_json :: "task \<Rightarrow> json" where
  "task_json t = JObj [(''agent'', JStr (agent t)), (''params'', JObj (params t))]"

text \<open>The three debug lines \<^verbatim>\<open>chat\<close> prints after routing, and the one after planning.\<close>

definition debug_route :: "'w env \<Rightarrow> string \<Rightarrow> string list \<Rightarrow> json \<Rightarrow> string list" where
  "debug_route E query_type intents slots =
     [''[DEBUG] Query Type: '' @ query_type,
      ''[DEBUG] Intents: '' @ py_str E (JList (map JStr intents)),
      ''[DEBUG] Slots: '' @ str_of E slots]"

definition debug_tasks :: "'w env \<Rightarrow> task list \<Rightarrow> string list" where
  "debug_tasks E tasks = [''[DEBUG] Tasks: '' @ py_str E (JList (map task_json tasks))]"

text \<open>
  \<^verbatim>\<open>chat(user_input)\<close>, with the router object as the parameter \<open>router\<close>. An exception
  leaves the method at once: the user's message is recorded by then, the reply is not.
\<close>

definition chat_with ::
  "(string \<Rightarrow> 'w \<Rightarrow> (py_error + string \<times> string list \<times> json) \<times> 'w)
    \<Rightarrow> 'w env \<Rightarrow> string \<Rightarrow> 'w bot \<Rightarrow> (py_error + string) \<times> 'w bot" where
  "chat_with router E user_input st =
     (let st1 = add_message E ''user'' user_input st in
      case router user_input (world st1) of
        (Inl e, w1) \<Rightarrow> (Inl e, st1\<lparr>world := w1\<rparr>)
      | (Inr (query_type, intents, slots), w1) \<Rightarrow>
          (case print_lines E (debug_route E query_type intents slots) w1 of
             (Inl e, w2) \<Rightarrow> (Inl e, st1\<lparr>world := w2\<rparr>)
           | (Inr u2, w2) \<Rightarrow>
               (case plan query_type intents slots of
                  Inl e \<Rightarrow> (Inl e, st1\<lparr>world := w2\<rparr>)
                | Inr tasks \<Rightarrow>
                    (case print_lines E (debug_tasks E tasks) w2 of
                       (Inl e, w3) \<Rightarrow> (Inl e, st1\<lparr>world := w3\<rparr>)
                     | (Inr u3, w3) \<Rightarrow>
                         (let st2 = st1\<lparr>world := w3\<rparr> in
                          case (if query_type = ''out_of_scope''
                                then (Inr ''I can only help with real estate queries. Please ask about properties, prices, or renovations.'', st2)
                                else if query_type = ''simple-query''
                                then (case tasks of
                                        [] \<Rightarrow> (Inl IndexError, st2)
                                      | t # _ \<Rightarrow> execute_task E t user_input st2)
                                else if query_type = ''complex-query''
                                then execute_complex_tasks E tasks user_input st2
                                else (Inr ''I'm not sure how to help with that. Try asking about property search or renovation estimates.'', st2)) of
                            (Inl e, st3) \<Rightarrow> (Inl e, st3)
                          | (Inr response, st3) \<Rightarrow>
                              (Inr response, add_message E ''assistant'' response st3))))))"

definition chat :: "'w env \<Rightarrow> string \<Rightarrow> 'w bot \<Rightarrow> (py_error + string) \<times> 'w bot" where
  "chat E user_input st = chat_with (route E) E user_input st"

section \<open>Definitions used to state the properties\<close>

text \<open>The intents validation is meant to keep: the enumerated names among the decoded
  intents, each at its first occurrence, or \<^verbatim>\<open>general_query\<close> alone when there is none.\<close>

definition validated_names :: "dict \<Rightarrow> string list" where
  "validated_names d =
     (let ws = first_occurrences [] (allowed_names (input_intents d))
      in if ws = [] then [''general_query''] else ws)"

text \<open>The five conditions of the structured search: the filter key, the text added to the
  query, and the parameter made of the filter's value.\<close>

definition filter_conditions :: "'w env \<Rightarrow> (string \<times> string \<times> (json \<Rightarrow> json)) list" where
  "filter_conditions E =
     [(''location'', '' AND location ILIKE %s'', \<lambda>v. JStr (''%'' @ str_of E v @ ''%'')),
      (''num_rooms'', '' AND num_rooms = %s'', \<lambda>v. v),
      (''max_price'', '' AND price <= %s'', \<lambda>v. v),
      (''min_price'', '' AND price >= %s'', \<lambda>v. v),
      (''property_size_sqft'', '' AND property_size_sqft >= %s'', \<lambda>v. v)]"



text \<open>The outputs of the handlers of a task list from task \<open>i + 1\<close> of \<open>n\<close> on, each handler
  run after its debug line on the state the one before left; an exception ends the run.\<close>

fun task_outputs :: "'w env \<Rightarrow> nat \<Rightarrow> nat \<Rightarrow> task list \<Rightarrow> string \<Rightarrow> 'w bot
    \<Rightarrow> (py_error + string list) \<times> 'w bot" where
  "task_outputs E n i [] user_input st = (Inr [], st)"
| "task_outputs E n i (t # ts) user_input st =
     (case announce E n i t st of
        (Inl e, st0) \<Rightarrow> (Inl e, st0)
      | (Inr u, st0) \<Rightarrow>
          (case execute_task E t user_input st0 of
             (Inl e, st1) \<Rightarrow> (Inl e, st1)
           | (Inr out, st1) \<Rightarrow>
               (case task_outputs E n (Suc i) ts user_input st1 of
                  (Inl e, st2) \<Rightarrow> (Inl e, st2)
                | (Inr outs, st2) \<Rightarrow> (Inr (out # outs), st2))))"

subsection \<open>Concrete collaborators for the examples\<close>

text \<open>A database with two rows, a decoder that knows a few texts, a completion service
  that answers with the second of them, a standard output that takes every line, and a
  world that counts the calls made over the network.\<close>

definition demo_rows :: "json list" where
  "demo_rows = [JObj [(''property_id'', JStr ''P1'')], JObj [(''property_id'', JStr ''P2'')]]"

definition demo_loads :: "string \<Rightarrow> py_error + json" where
  "demo_loads s =
     (if s = ''{i}''
      then Inr (JObj [(''intents'', JList [JStr ''generate_report'', JStr ''fly'', JInt 3,
                                         JStr ''search_property'', JStr ''generate_report'']),
                      (''slots'', JObj [(''location'', JStr ''Pune''), (''num_rooms'', JInt 0),
                                       (''max_price'', JNull)])])
      else if s = ''{n}''
      then Inr (JObj [(''intents'', JList [JStr ''search_property'']), (''slots'', JNull)])
      else if s = ''reply''
      then Inr (JObj [(''choices'',
                  JList [JObj [(''message'', JObj [(''content'', JStr ''ok {i} done'')])]])])
      else if s = ''chat''
      then Inr (JObj [(''choices'',
                  JList [JObj [(''message'', JObj [(''content'', JStr ''Sure, I can help'')])]])])
      else if s = ''null''
      then Inr (JObj [(''choices'',
                  JList [JObj [(''message'', JObj [(''content'', JStr ''{n}'')])]])])
      else if s = ''broken''
      then Inr (JObj [(''choices'',
                  JList [JObj [(''message'', JObj [(''content'', JStr ''{bad}'')])]])])
      else if s = ''latin''
      then Inr (JObj [(''choices'',
                  JList [JObj [(''message'',
                    JObj [(''content'', JStr (''Au caf'' @ [CHR 0xE9]))])]])])
      else if s = ''rows''
      then Inr (JList demo_rows)
      else Inl JSONDecodeError)"

definition demo_env :: "nat env" where
  "demo_env =
     \<lparr>json_loads = demo_loads,
      json_dumps = (\<lambda>v. Inr ''dumped''),
      py_str = (\<lambda>v. ''?''),
      requests_post = (\<lambda>prompt w. (Inr \<lparr>status_code = 200, body = ''reply''\<rparr>, Suc w)),
      now_isoformat = (\<lambda>w. ''t''),
      db_fetch = (\<lambda>query ps w. (Inr demo_rows, Suc w)),
      db_connect = (\<lambda>w. (Inr (), Suc w)),
      redis_setex = (\<lambda>k ttl v w. (Inr (), Suc w)),
      redis_get = (\<lambda>k w. (Inr None, Suc w)),
      format_property = (\<lambda>prop. Inr ''- row''),
      renovation_estimate = (\<lambda>size rooms. Inr ''estimate''),
      report_generate = (\<lambda>props w. (Inr ''report.pdf'', Suc w)),
      web_research = (\<lambda>query w. (Inr ''summary'', Suc w)),
      rag_answer = (\<lambda>question keywords w. (Inr (''answer'', [''P1'']), Suc w)),
      py_print = (\<lambda>line w. (Inr (), w)),
      json_error_text = (\<lambda>s. ''Expecting value''),
      db_upsert = (\<lambda>u k v w. (Inr (), w)),
      db_close = (\<lambda>w. (Inr (), w))\<rparr>"

text \<open>The same collaborators with the completion service unreachable.\<close>

definition down_env :: "nat env" where
  "down_env = demo_env\<lparr>requests_post := (\<lambda>prompt w. (Inl RequestException, Suc w))\<rparr>"

text \<open>The completion service answering without any JSON, answering 503, answering
  with braces that do not decode, and answering with \<^verbatim>\<open>null\<close> for the slots.\<close>

definition chatty_env :: "nat env" where
  "chatty_env =
     demo_env\<lparr>requests_post := (\<lambda>prompt w. (Inr \<lparr>status_code = 200, body = ''chat''\<rparr>, Suc w))\<rparr>"

definition failing_env :: "nat env" where
  "failing_env =
     demo_env\<lparr>requests_post := (\<lambda>prompt w. (Inr \<lparr>status_code = 503, body = []\<rparr>, Suc w))\<rparr>"

definition broken_env :: "nat env" where
  "broken_env =
     demo_env\<lparr>requests_post := (\<lambda>prompt w. (Inr \<lparr>status_code = 200, body = ''broken''\<rparr>, Suc w))\<rparr>"

definition null_slots_env :: "nat env" where
  "null_slots_env =
     demo_env\<lparr>requests_post := (\<lambda>prompt w. (Inr \<lparr>status_code = 200, body = ''null''\<rparr>, Suc w))\<rparr>"

text \<open>A standard output that takes ASCII only, with the completion service answering
  in French and without any JSON.\<close>

definition ascii_stdout_env :: "nat env" where
  "ascii_stdout_env =
     demo_env\<lparr>requests_post := (\<lambda>prompt w. (Inr \<lparr>status_code = 200, body = ''latin''\<rparr>, Suc w)),
              py_print := (\<lambda>line w. if list_all (\<lambda>c. (of_char c :: nat) < 128) line
                                     then (Inr (), w)
                                     else (Inl UnicodeEncodeError, w))\<rparr>"


definition demo_bot :: "nat bot" where
  "demo_bot =
     \<lparr>user_id = ''u1'',
      episodic = [\<lparr>role = ''user'', content = ''hello'', timestamp = ''t0''\<rparr>,
                  \<lparr>role = ''assistant'', content = ''hi'', timestamp = ''t1''\<rparr>,
                  \<lparr>role = ''user'', content = ''bye'', timestamp = ''t2''\<rparr>],
      redis_available = False,
      shortterm = [],
      user_memory = (\<lambda>k. None),
      world = 0\<rparr>"

text \<open>Two routers for the examples: one that finds every query out of scope, one that
  answers with a query type the chatbot does not know.\<close>

definition refusing_router :: "string \<Rightarrow> nat \<Rightarrow> (py_error + string \<times> string list \<times> json) \<times> nat" where
  "refusing_router user_input w = (Inr (''out_of_scope'', [], JObj []), Suc w)"

definition unknown_router :: "string \<Rightarrow> nat \<Rightarrow> (py_error + string \<times> string list \<times> json) \<times> nat" where
  "unknown_router user_input w = (Inr (''mystery'', [''web_research''], JObj []), Suc w)"

text \<open>The chatbot after a search that found the two rows.\<close>

definition searched_bot :: "nat bot" where
  "searched_bot =
     demo_bot\<lparr>world := 1,
              shortterm := [(''session:u1:last_search_results'', JList demo_rows)]\<rparr>"

text \<open>A chatbot on the networked session store: the world is the content of the store,
  a list of keys and texts; \<^verbatim>\<open>setex\<close> puts a text under a key and \<^verbatim>\<open>get\<close> reads it.\<close>

definition cache_env :: "(string \<times> string) list env" where
  "cache_env =
     \<lparr>json_loads = demo_loads,
      json_dumps = (\<lambda>v. if v = JList demo_rows then Inr ''rows'' else Inl TypeError),
      py_str = (\<lambda>v. ''?''),
      requests_post = (\<lambda>prompt w. (Inl RequestException, w)),
      now_isoformat = (\<lambda>w. ''t''),
      db_fetch = (\<lambda>query ps w. (Inr demo_rows, w)),
      db_connect = (\<lambda>w. (Inr (), w)),
      redis_setex = (\<lambda>k ttl v w. (Inr (), (k, v) # w)),
      redis_get = (\<lambda>k w. (Inr (map_of w k), w)),
      format_property = (\<lambda>prop. Inr ''- row''),
      renovation_estimate = (\<lambda>size rooms. Inr ''estimate''),
      report_generate = (\<lambda>props w. (Inr ''report.pdf'', w)),
      web_research = (\<lambda>query w. (Inr ''summary'', w)),
      rag_answer = (\<lambda>question keywords w. (Inr (''answer'', []), w)),
      py_print = (\<lambda>line w. (Inr (), w)),
      json_error_text = (\<lambda>s. ''Expecting value''),
      db_upsert = (\<lambda>u k v w. (Inr (), w)),
      db_close = (\<lambda>w. (Inr (), w))\<rparr>"

definition cache_bot :: "(string \<times> string) list bot" where
  "cache_bot =
     \<lparr>user_id = ''u1'',
      episodic = [],
      redis_available = True,
      shortterm = [],
      user_memory = (\<lambda>k. None),
      world = []\<rparr>"

section \<open>Properties of the router\<close>

lemma map_of_dict_set: "map_of (dict_set k v d) = (map_of d)(k \<mapsto> v)"
  by (induction d) auto

lemma py_eq_JStr: "py_eq (JStr s) b = (b = JStr s)"
  by (auto simp: py_eq_def split: option.splits)

lemma seen_JStr: "(\<exists>x \<in> set seen. py_eq (JStr s) x) = (JStr s \<in> set seen)"
  by (auto simp: py_eq_JStr)

lemma allowed_names_mem:
  "s \<in> set (allowed_names vs) = (JStr s \<in> set vs \<and> s \<in> set allowed_intents)"
  by (induction vs rule: allowed_names.induct) auto

lemma allowed_names_append: "allowed_names (us @ vs) = allowed_names us @ allowed_names vs"
  by (induction us rule: allowed_names.induct) auto

lemma filter_in_allowed: "filter in_allowed vs = map JStr (allowed_names vs)"
  by (induction vs rule: allowed_names.induct) auto

lemma allowed_names_not: "\<not> in_allowed v \<Longrightarrow> allowed_names (v # vs) = allowed_names vs"
  by (cases v) auto

text \<open>What the duplicate-removal loop leaves of the enumerated names: the names already
  collected, then the first occurrence of every name not seen before.\<close>

lemma remove_duplicates_names:
  "remove_duplicates seen u xs = Inr ys \<Longrightarrow>
   allowed_names ys = allowed_names u @ first_occurrences (allowed_names seen) (allowed_names xs)"
proof (induction xs arbitrary: seen u)
  case Nil
  then show ?case by simp
next
  case (Cons intent rest)
  show ?case
  proof (cases "in_allowed intent")
    case True
    then obtain s where s: "intent = JStr s" "s \<in> set allowed_intents"
      by (cases intent) auto
    show ?thesis
    proof (cases "JStr s \<in> set seen")
      case True
      with Cons s show ?thesis
        by (simp add: seen_JStr allowed_names_mem)
    next
      case False
      with Cons.prems s have "remove_duplicates (JStr s # seen) (u @ [JStr s]) rest = Inr ys"
        by (simp add: seen_JStr)
      from Cons.IH [OF this] s False show ?thesis
        by (simp add: allowed_names_append allowed_names_mem)
    qed
  next
    case False
    from Cons.prems have h: "hashable intent"
      by (auto split: if_splits)
    have an: "allowed_names (intent # zs) = allowed_names zs" for zs
      using False by (rule allowed_names_not)
    show ?thesis
    proof (cases "\<exists>x \<in> set seen. py_eq intent x")
      case True
      with Cons.prems h have "remove_duplicates seen u rest = Inr ys" by simp
      from Cons.IH [OF this] show ?thesis by (simp add: an)
    next
      case F2: False
      with Cons.prems h have "remove_duplicates (intent # seen) (u @ [intent]) rest = Inr ys"
        by simp
      from Cons.IH [OF this] show ?thesis
        by (simp add: an allowed_names_append)
    qed
  qed
qed

text \<open>The loop raises only on an unhashable element.\<close>

lemma remove_duplicates_total:
  "\<forall>v \<in> set xs. hashable v \<Longrightarrow> \<exists>ys. remove_duplicates seen u xs = Inr ys"
  by (induction xs arbitrary: seen u) auto

lemma first_occurrences_distinct:
  "distinct (first_occurrences seen xs) \<and> set (first_occurrences seen xs) = set xs - set seen"
  by (induction seen xs rule: first_occurrences.induct) auto

lemma allowed_names_subset: "set (allowed_names vs) \<subseteq> set allowed_intents"
  by (auto simp: allowed_names_mem)

lemma validated_names_ok:
  "validated_names d \<noteq> [] \<and> distinct (validated_names d)
   \<and> set (validated_names d) \<subseteq> set allowed_intents"
  using allowed_names_subset [of "input_intents d"]
  by (auto simp: validated_names_def Let_def first_occurrences_distinct allowed_intents_def)

lemma ensure_intents_list_reads:
  "(case map_of (ensure_intents_list d) ''intents'' of Some (JList xs) \<Rightarrow> xs | _ \<Rightarrow> [])
     = input_intents d"
proof (cases "map_of d ''intents''")
  case None
  then show ?thesis
    by (simp add: ensure_intents_list_def input_intents_def map_of_dict_set)
next
  case (Some v)
  then show ?thesis
    by (cases v) (simp_all add: ensure_intents_list_def input_intents_def map_of_dict_set)
qed

lemma ensure_intents_list_other:
  "k \<noteq> ''intents'' \<Longrightarrow> map_of (ensure_intents_list d) k = map_of d k"
  by (simp add: ensure_intents_list_def map_of_dict_set split: option.splits json.splits)

lemma validate_and_clean_unfold:
  "validate_and_clean (JObj d) =
     (case remove_duplicates [] [] (input_intents d) of
        Inl e \<Rightarrow> Inl e
      | Inr u \<Rightarrow> Inr (JObj (store_validated (ensure_intents_list d) u)))"
  by (simp add: validate_and_clean_def Let_def ensure_intents_list_reads)

lemma store_validated_intents:
  "map_of (store_validated d1 u) ''intents'' =
     Some (JList (if filter in_allowed u = [] then [JStr ''general_query'']
                  else filter in_allowed u))"
  by (simp add: store_validated_def Let_def map_of_dict_set)

lemma store_validated_slots:
  "map_of (store_validated d1 u) ''slots'' =
     Some (case map_of d1 ''slots'' of None \<Rightarrow> JObj [] | Some v \<Rightarrow> v)"
  by (auto simp: store_validated_def Let_def map_of_dict_set split: option.splits)

lemma store_validated_in_scope:
  "map_of (store_validated d1 u) ''in_scope'' =
     Some (case map_of d1 ''in_scope'' of None \<Rightarrow> JBool True | Some v \<Rightarrow> v)"
  by (auto simp: store_validated_def Let_def map_of_dict_set split: option.splits)

lemma validate_and_clean_fields:
  assumes "validate_and_clean (JObj d) = Inr result"
  shows "\<exists>r u. result = JObj r \<and> remove_duplicates [] [] (input_intents d) = Inr u
           \<and> map_of r ''intents'' =
               Some (JList (if filter in_allowed u = [] then [JStr ''general_query'']
                            else filter in_allowed u))
           \<and> map_of r ''slots'' = Some (case map_of d ''slots'' of None \<Rightarrow> JObj [] | Some v \<Rightarrow> v)
           \<and> map_of r ''in_scope'' =
               Some (case map_of d ''in_scope'' of None \<Rightarrow> JBool True | Some v \<Rightarrow> v)"
proof -
  from assms obtain u where u: "remove_duplicates [] [] (input_intents d) = Inr u"
    and r: "result = JObj (store_validated (ensure_intents_list d) u)"
    by (auto simp: validate_and_clean_unfold split: sum.splits)
  show ?thesis
    using u r
    by (simp add: store_validated_intents store_validated_slots store_validated_in_scope
                  ensure_intents_list_other)
qed

lemma validate_and_clean_total:
  assumes "\<forall>v \<in> set (input_intents d). hashable v"
  shows "\<exists>cleaned. validate_and_clean (JObj d) = Inr cleaned"
proof -
  from remove_duplicates_total [OF assms, of "[]" "[]"]
  obtain u where "remove_duplicates [] [] (input_intents d) = Inr u" ..
  then show ?thesis
    by (simp add: validate_and_clean_unfold)
qed

lemma validate_and_clean_intents:
  assumes "validate_and_clean (JObj d) = Inr result"
  shows "result_intents result = map JStr (validated_names d)"
proof -
  from validate_and_clean_fields [OF assms] obtain r u where
    r: "result = JObj r" and u: "remove_duplicates [] [] (input_intents d) = Inr u"
    and m: "map_of r ''intents'' =
               Some (JList (if filter in_allowed u = [] then [JStr ''general_query'']
                            else filter in_allowed u))"
    by blast
  from remove_duplicates_names [OF u]
  have "filter in_allowed u = map JStr (first_occurrences [] (allowed_names (input_intents d)))"
    by (simp add: filter_in_allowed)
  with r m show ?thesis
    by (simp add: result_intents_def validated_names_def Let_def)
qed

lemma validate_and_clean_dict: "validate_and_clean v = Inr r \<Longrightarrow> \<exists>d. v = JObj d"
  by (cases v) (simp_all add: validate_and_clean_def)

lemma extract_json_cases:
  assumes "extract_json E text w = (Inr result, w')"
  shows "result = default_result \<or> (\<exists>d. validate_and_clean (JObj d) = Inr result)"
proof (cases "str_find (CHR ''{'') text = - 1 \<or> str_rfind (CHR ''}'') text + 1 = 0")
  case True
  with assms show ?thesis
    by (auto simp: extract_json_def Let_def split: prod.splits sum.splits)
next
  case False
  show ?thesis
  proof (cases "json_loads E (py_slice text (str_find (CHR ''{'') text)
                                (str_rfind (CHR ''}'') text + 1))")
    case (Inl e)
    with assms False show ?thesis
      by (cases e) (auto simp: extract_json_def Let_def split: prod.splits sum.splits)
  next
    case (Inr v)
    with assms False have "validate_and_clean v = Inr result"
      by (auto simp: extract_json_def Let_def)
    with validate_and_clean_dict [OF this] show ?thesis by auto
  qed
qed

lemma default_intents: "result_intents default_result = map JStr [''general_query'']"
  by (simp add: result_intents_def default_result_def)

text \<open>
  C1. Whatever the completion text, the decoder and the standard output, the intents of
  a classification result that \<open>extract_json\<close> produces are enumerated names, without
  duplicates and at least one. The validation step keeps the first occurrence of each enumerated name of
  the decoded intents, and puts \<^verbatim>\<open>general_query\<close> alone when none is left; it produces a
  result whenever every decoded intent is hashable (a scalar).
\<close>

theorem classify_intents_valid:
  "(extract_json E text w = (Inr result, w') \<longrightarrow>
      (\<exists>names. result_intents result = map JStr names \<and> names \<noteq> [] \<and> distinct names
         \<and> set names \<subseteq> set allowed_intents))
   \<and> (validate_and_clean (JObj d) = Inr cleaned \<longrightarrow>
        result_intents cleaned =
          map JStr (let ws = first_occurrences [] (allowed_names (input_intents d))
                    in if ws = [] then [''general_query''] else ws))
   \<and> ((\<forall>v \<in> set (input_intents d). hashable v) \<longrightarrow>
        (\<exists>cleaned. validate_and_clean (JObj d) = Inr cleaned))"
proof (intro conjI impI)
  assume "extract_json E text w = (Inr result, w')"
  from extract_json_cases [OF this]
  show "\<exists>names. result_intents result = map JStr names \<and> names \<noteq> [] \<and> distinct names
         \<and> set names \<subseteq> set allowed_intents"
  proof
    assume "result = default_result"
    then have "result_intents result = map JStr [''general_query'']"
      by (simp add: default_intents)
    then show ?thesis
      by (intro exI [of _ "[''general_query'']"]) (simp add: allowed_intents_def)
  next
    assume "\<exists>d. validate_and_clean (JObj d) = Inr result"
    then obtain d' where "validate_and_clean (JObj d') = Inr result" ..
    from validate_and_clean_intents [OF this] validated_names_ok [of d']
    show ?thesis by blast
  qed
next
  assume "validate_and_clean (JObj d) = Inr cleaned"
  from validate_and_clean_intents [OF this]
  show "result_intents cleaned =
          map JStr (let ws = first_occurrences [] (allowed_names (input_intents d))
                    in if ws = [] then [''general_query''] else ws)"
    by (simp add: validated_names_def)
next
  assume "\<forall>v \<in> set (input_intents d). hashable v"
  then show "\<exists>cleaned. validate_and_clean (JObj d) = Inr cleaned"
    by (rule validate_and_clean_total)
qed



theorem classify_intents_valid_witness:
  "extract_json demo_env ''ok {i} done'' 0
     = (Inr (JObj [(''intents'', JList [JStr ''generate_report'', JStr ''search_property'']),
                   (''slots'', JObj [(''location'', JStr ''Pune''), (''num_rooms'', JInt 0),
                                    (''max_price'', JNull)]),
                   (''in_scope'', JBool True)]), 0)
   \<and> validate_and_clean (JObj [(''intents'', JStr ''fly'')])
       = Inr (JObj [(''intents'', JList [JStr ''general_query'']), (''slots'', JObj []),
                    (''in_scope'', JBool True)])
   \<and> input_intents [(''intents'', JStr ''fly'')] = [JStr ''fly'']
   \<and> hashable (JStr ''fly'')
   \<and> (\<exists>names. result_intents
         (JObj [(''intents'', JList [JStr ''generate_report'', JStr ''search_property'']),
                (''slots'', JObj [(''location'', JStr ''Pune''), (''num_rooms'', JInt 0),
                                 (''max_price'', JNull)]),
                (''in_scope'', JBool True)]) = map JStr names
        \<and> names \<noteq> [] \<and> distinct names \<and> set names \<subseteq> set allowed_intents)
   \<and> result_intents (JObj [(''intents'', JList [JStr ''general_query'']), (''slots'', JObj []),
                    (''in_scope'', JBool True)]) = [JStr ''general_query'']"
proof -
  have e: "extract_json demo_env ''ok {i} done'' 0
     = (Inr (JObj [(''intents'', JList [JStr ''generate_report'', JStr ''search_property'']),
                   (''slots'', JObj [(''location'', JStr ''Pune''), (''num_rooms'', JInt 0),
                                    (''max_price'', JNull)]),
                   (''in_scope'', JBool True)]), 0)"
    by (simp add: extract_json_def str_find_def str_rfind_def py_slice_def clamp_index_def
          demo_env_def demo_loads_def validate_and_clean_def ensure_intents_list_def
          store_validated_def py_eq_def allowed_intents_def Let_def)
  have v: "validate_and_clean (JObj [(''intents'', JStr ''fly'')])
       = Inr (JObj [(''intents'', JList [JStr ''general_query'']), (''slots'', JObj []),
                    (''in_scope'', JBool True)])"
    by (simp add: validate_and_clean_def ensure_intents_list_def store_validated_def
          py_eq_def allowed_intents_def Let_def)
  have h: "\<forall>v \<in> set (input_intents [(''intents'', JStr ''fly'')]). hashable v"
    by (simp add: input_intents_def)
  from classify_intents_valid [of demo_env "''ok {i} done''" 0 _ 0
      "[(''intents'', JStr ''fly'')]"] e v h
  show ?thesis
    by (simp add: input_intents_def allowed_intents_def)
qed

section \<open>Properties of routing and planning\<close>

lemma str_values_map: "str_values (map JStr names) = names"
  by (induction names) auto

lemma extract_json_shape:
  assumes "extract_json E text w = (Inr result, w')"
  shows "\<exists>r names. result = JObj r \<and> map_of r ''intents'' = Some (JList (map JStr names))
           \<and> names \<noteq> [] \<and> distinct names \<and> set names \<subseteq> set allowed_intents
           \<and> map_of r ''in_scope'' \<noteq> None \<and> map_of r ''slots'' \<noteq> None"
  using extract_json_cases [OF assms]
proof
  assume "result = default_result"
  then show ?thesis
    by (intro exI [of _ "[(''in_scope'', JBool True), (''intents'', JList [JStr ''general_query'']),
           (''slots'', JObj [])]"] exI [of _ "[''general_query'']"])
       (simp add: default_result_def allowed_intents_def)
next
  assume "\<exists>d. validate_and_clean (JObj d) = Inr result"
  then obtain d where d: "validate_and_clean (JObj d) = Inr result" ..
  from validate_and_clean_fields [OF d] obtain r u where
    r: "result = JObj r" and u: "remove_duplicates [] [] (input_intents d) = Inr u"
    and m: "map_of r ''intents'' =
               Some (JList (if filter in_allowed u = [] then [JStr ''general_query'']
                            else filter in_allowed u))"
    and s: "map_of r ''slots'' \<noteq> None" and i: "map_of r ''in_scope'' \<noteq> None"
    by auto
  from remove_duplicates_names [OF u]
  have "filter in_allowed u = map JStr (first_occurrences [] (allowed_names (input_intents d)))"
    by (simp add: filter_in_allowed)
  with m have "map_of r ''intents'' = Some (JList (map JStr (validated_names d)))"
    by (simp add: validated_names_def Let_def)
  with r s i validated_names_ok [of d] show ?thesis by blast
qed

lemma classify_shape:
  assumes "result = JObj r" "map_of r ''intents'' = Some (JList (map JStr names))"
    "map_of r ''in_scope'' = Some b"
  shows "classify result =
     (if \<not> truthy b then Inr (''out_of_scope'', [], JObj [])
      else Inr (if length names = 1 then ''simple-query'' else ''complex-query'', names,
                case map_of r ''slots'' of None \<Rightarrow> JObj [] | Some v \<Rightarrow> v))"
  using assms by (simp add: classify_def Let_def str_values_map)

lemma route_unfold:
  "call_llm E (build_prompt user_input) w = (Inr (JStr text), w1) \<Longrightarrow>
   route E user_input w =
     (case extract_json E text w1 of
        (Inl e, w2) \<Rightarrow> (Inl e, w2)
      | (Inr result, w2) \<Rightarrow> (classify result, w2))"
  by (simp add: route_def)

lemma route_output:
  assumes "route E user_input w = (Inr (query_type, intents, slots), w')"
  shows "(query_type = ''out_of_scope'' \<and> intents = [] \<and> slots = JObj [])
         \<or> (query_type = ''simple-query'' \<and> length intents = 1)
         \<or> (query_type = ''complex-query'' \<and> 2 \<le> length intents)"
proof -
  from assms obtain reply w1 where
    c: "call_llm E (build_prompt user_input) w = (Inr (JStr reply), w1)"
    by (auto simp: route_def split: prod.splits sum.splits json.splits)
  from assms route_unfold [OF c] obtain result where
    e: "extract_json E reply w1 = (Inr result, w')"
    and k: "classify result = Inr (query_type, intents, slots)"
    by (auto split: prod.splits sum.splits)
  from extract_json_shape [OF e] obtain r names b where
    "result = JObj r" "map_of r ''intents'' = Some (JList (map JStr names))"
    "map_of r ''in_scope'' = Some b" and n: "names \<noteq> []"
    by auto
  from classify_shape [OF this(1-3)] k n show ?thesis
    by (cases names; cases "tl names") (auto split: if_splits)
qed

lemma classify_default:
  "classify default_result = Inr (''simple-query'', [''general_query''], JObj [])"
  by (simp add: classify_def default_result_def)

text \<open>The two fallbacks of \<open>route\<close>: the default when the lines are printed, the exception
  of the print otherwise.\<close>

lemma route_no_json:
  assumes c: "call_llm E (build_prompt user_input) w = (Inr (JStr reply), w1)"
    and m: "str_find (CHR ''{'') reply = - 1 \<or> str_rfind (CHR ''}'') reply + 1 = 0"
    and p: "print_lines E (no_json_lines reply) w1 = (r, w2)"
  shows "route E user_input w =
     (case r of Inl e \<Rightarrow> Inl e
      | Inr u \<Rightarrow> Inr (''simple-query'', [''general_query''], JObj []), w2)"
proof -
  from m p have "extract_json E reply w1 =
      (case r of Inl e \<Rightarrow> Inl e | Inr u \<Rightarrow> Inr default_result, w2)"
    by (auto simp: extract_json_def Let_def split: sum.splits)
  then show ?thesis
    by (simp add: route_unfold [OF c] classify_default split: sum.splits)
qed

lemma route_parse_error:
  assumes c: "call_llm E (build_prompt user_input) w = (Inr (JStr reply), w1)"
    and m: "str_find (CHR ''{'') reply \<noteq> - 1" "str_rfind (CHR ''}'') reply + 1 \<noteq> 0"
    and l: "json_loads E (py_slice reply (str_find (CHR ''{'') reply)
                             (str_rfind (CHR ''}'') reply + 1)) = Inl JSONDecodeError"
    and p: "print_lines E (parse_error_lines E reply
                (py_slice reply (str_find (CHR ''{'') reply) (str_rfind (CHR ''}'') reply + 1)))
              w1 = (r, w2)"
  shows "route E user_input w =
     (case r of Inl e \<Rightarrow> Inl e
      | Inr u \<Rightarrow> Inr (''simple-query'', [''general_query''], JObj []), w2)"
proof -
  from m l p have "extract_json E reply w1 =
      (case r of Inl e \<Rightarrow> Inl e | Inr u \<Rightarrow> Inr default_result, w2)"
    by (auto simp: extract_json_def Let_def split: sum.splits)
  then show ?thesis
    by (simp add: route_unfold [OF c] classify_default split: sum.splits)
qed

lemma route_total:
  assumes c: "call_llm E (build_prompt user_input) w = (Inr (JStr reply), w1)"
    and m: "str_find (CHR ''{'') reply \<noteq> - 1" "str_rfind (CHR ''}'') reply + 1 \<noteq> 0"
    and l: "json_loads E (py_slice reply (str_find (CHR ''{'') reply)
                             (str_rfind (CHR ''}'') reply + 1)) = Inr (JObj d)"
    and h: "\<forall>v \<in> set (input_intents d). hashable v"
  shows "\<exists>r. route E user_input w = (Inr r, w1)"
proof -
  from validate_and_clean_total [OF h] obtain cleaned where
    v: "validate_and_clean (JObj d) = Inr cleaned" ..
  from m l v have e: "extract_json E reply w1 = (Inr cleaned, w1)"
    by (simp add: extract_json_def Let_def)
  from extract_json_shape [OF e] obtain r names b where
    s: "cleaned = JObj r" "map_of r ''intents'' = Some (JList (map JStr names))"
    "map_of r ''in_scope'' = Some b"
    by auto
  from classify_shape [OF s] e show ?thesis
    by (simp add: route_unfold [OF c])
qed

text \<open>
  C2, as the code has it. When the completion call returns a text, \<open>route\<close> does not raise
  on a text without an opening or a closing brace, nor on one whose braced part fails to
  decode, provided the lines it prints about the reply are written: it returns the
  default classification (a simple query, \<^verbatim>\<open>general_query\<close> alone, no slots). It returns
  a classification whenever the braced part decodes to an object whose intents are
  scalars. An exception of a print, a transport error of the POST and a 4xx or 5xx
  status are not absorbed: \<open>route\<close> raises them.
\<close>

theorem route_degrades_on_malformed_text:
  "(call_llm E (build_prompt user_input) w = (Inr (JStr reply), w1)
      \<and> (str_find (CHR ''{'') reply = - 1 \<or> str_rfind (CHR ''}'') reply + 1 = 0)
      \<and> print_lines E (no_json_lines reply) w1 = (Inr (), w2)
      \<longrightarrow> route E user_input w = (Inr (''simple-query'', [''general_query''], JObj []), w2))
   \<and> (call_llm E (build_prompt user_input) w = (Inr (JStr reply), w1)
      \<and> str_find (CHR ''{'') reply \<noteq> - 1 \<and> str_rfind (CHR ''}'') reply + 1 \<noteq> 0
      \<and> json_loads E (py_slice reply (str_find (CHR ''{'') reply)
                               (str_rfind (CHR ''}'') reply + 1)) = Inl JSONDecodeError
      \<and> print_lines E (parse_error_lines E reply
            (py_slice reply (str_find (CHR ''{'') reply) (str_rfind (CHR ''}'') reply + 1)))
          w1 = (Inr (), w2)
      \<longrightarrow> route E user_input w = (Inr (''simple-query'', [''general_query''], JObj []), w2))
   \<and> (call_llm E (build_prompt user_input) w = (Inr (JStr reply), w1)
      \<and> str_find (CHR ''{'') reply \<noteq> - 1 \<and> str_rfind (CHR ''}'') reply + 1 \<noteq> 0
      \<and> json_loads E (py_slice reply (str_find (CHR ''{'') reply)
                               (str_rfind (CHR ''}'') reply + 1)) = Inr (JObj d)
      \<and> (\<forall>v \<in> set (input_intents d). hashable v)
      \<longrightarrow> (\<exists>r. route E user_input w = (Inr r, w1)))
   \<and> (call_llm E (build_prompt user_input) w = (Inr (JStr reply), w1)
      \<and> (str_find (CHR ''{'') reply = - 1 \<or> str_rfind (CHR ''}'') reply + 1 = 0)
      \<and> print_lines E (no_json_lines reply) w1 = (Inl e, w2)
      \<longrightarrow> route E user_input w = (Inl e, w2))
   \<and> (call_llm E (build_prompt user_input) w = (Inr (JStr reply), w1)
      \<and> str_find (CHR ''{'') reply \<noteq> - 1 \<and> str_rfind (CHR ''}'') reply + 1 \<noteq> 0
      \<and> json_loads E (py_slice reply (str_find (CHR ''{'') reply)
                               (str_rfind (CHR ''}'') reply + 1)) = Inl JSONDecodeError
      \<and> print_lines E (parse_error_lines E reply
            (py_slice reply (str_find (CHR ''{'') reply) (str_rfind (CHR ''}'') reply + 1)))
          w1 = (Inl e, w2)
      \<longrightarrow> route E user_input w = (Inl e, w2))
   \<and> (requests_post E (build_prompt user_input) w = (Inl e, w1)
      \<longrightarrow> route E user_input w = (Inl e, w1))
   \<and> (requests_post E (build_prompt user_input) w = (Inr response, w1)
      \<and> 400 \<le> status_code response \<and> status_code response < 600
      \<longrightarrow> route E user_input w = (Inl HTTPError, w1))"
proof (intro conjI impI)
  assume "call_llm E (build_prompt user_input) w = (Inr (JStr reply), w1)
      \<and> (str_find (CHR ''{'') reply = - 1 \<or> str_rfind (CHR ''}'') reply + 1 = 0)
      \<and> print_lines E (no_json_lines reply) w1 = (Inr (), w2)"
  then show "route E user_input w = (Inr (''simple-query'', [''general_query''], JObj []), w2)"
    using route_no_json [of E user_input w reply w1 "Inr ()" w2] by simp
next
  assume "call_llm E (build_prompt user_input) w = (Inr (JStr reply), w1)
      \<and> str_find (CHR ''{'') reply \<noteq> - 1 \<and> str_rfind (CHR ''}'') reply + 1 \<noteq> 0
      \<and> json_loads E (py_slice reply (str_find (CHR ''{'') reply)
                               (str_rfind (CHR ''}'') reply + 1)) = Inl JSONDecodeError
      \<and> print_lines E (parse_error_lines E reply
            (py_slice reply (str_find (CHR ''{'') reply) (str_rfind (CHR ''}'') reply + 1)))
          w1 = (Inr (), w2)"
  then show "route E user_input w = (Inr (''simple-query'', [''general_query''], JObj []), w2)"
    using route_parse_error [of E user_input w reply w1 "Inr ()" w2] by simp
next
  assume "call_llm E (build_prompt user_input) w = (Inr (JStr reply), w1)
      \<and> str_find (CHR ''{'') reply \<noteq> - 1 \<and> str_rfind (CHR ''}'') reply + 1 \<noteq> 0
      \<and> json_loads E (py_slice reply (str_find (CHR ''{'') reply)
                               (str_rfind (CHR ''}'') reply + 1)) = Inr (JObj d)
      \<and> (\<forall>v \<in> set (input_intents d). hashable v)"
  then show "\<exists>r. route E user_input w = (Inr r, w1)"
    by (elim conjE) (rule route_total)
next
  assume "call_llm E (build_prompt user_input) w = (Inr (JStr reply), w1)
      \<and> (str_find (CHR ''{'') reply = - 1 \<or> str_rfind (CHR ''}'') reply + 1 = 0)
      \<and> print_lines E (no_json_lines reply) w1 = (Inl e, w2)"
  then show "route E user_input w = (Inl e, w2)"
    using route_no_json [of E user_input w reply w1 "Inl e" w2] by simp
next
  assume "call_llm E (build_prompt user_input) w = (Inr (JStr reply), w1)
      \<and> str_find (CHR ''{'') reply \<noteq> - 1 \<and> str_rfind (CHR ''}'') reply + 1 \<noteq> 0
      \<and> json_loads E (py_slice reply (str_find (CHR ''{'') reply)
                               (str_rfind (CHR ''}'') reply + 1)) = Inl JSONDecodeError
      \<and> print_lines E (parse_error_lines E reply
            (py_slice reply (str_find (CHR ''{'') reply) (str_rfind (CHR ''}'') reply + 1)))
          w1 = (Inl e, w2)"
  then show "route E user_input w = (Inl e, w2)"
    using route_parse_error [of E user_input w reply w1 "Inl e" w2] by simp
next
  assume "requests_post E (build_prompt user_input) w = (Inl e, w1)"
  then show "route E user_input w = (Inl e, w1)"
    by (simp add: route_def call_llm_def)
next
  assume "requests_post E (build_prompt user_input) w = (Inr response, w1)
      \<and> 400 \<le> status_code response \<and> status_code response < 600"
  then show "route E user_input w = (Inl HTTPError, w1)"
    by (simp add: route_def call_llm_def)
qed

lemma demo_call_llm:
  "call_llm demo_env p 0 = (Inr (JStr ''ok {i} done''), 1)"
  by (simp add: call_llm_def demo_env_def demo_loads_def list_index_def)

lemma demo_slice:
  "py_slice ''ok {i} done'' (str_find (CHR ''{'') ''ok {i} done'')
      (str_rfind (CHR ''}'') ''ok {i} done'' + 1) = ''{i}''"
  by (simp add: str_find_def str_rfind_def py_slice_def clamp_index_def)

text \<open>C2 as stated fails: with the completion service unreachable, \<open>route\<close> raises.\<close>

theorem route_unavailable_counterexample:
  "route down_env ''Find 2BHK in Mumbai under 50 lakh'' 0 = (Inl RequestException, 1)"
  by (simp add: route_def call_llm_def down_env_def demo_env_def)

lemma demo_no_json:
  "str_find (CHR ''{'') ''Sure, I can help'' = - 1"
  by (simp add: str_find_def)

lemma broken_slice:
  "str_find (CHR ''{'') ''{bad}'' = 0 \<and> str_rfind (CHR ''}'') ''{bad}'' + 1 = 5
   \<and> py_slice ''{bad}'' 0 5 = ''{bad}''"
  by (simp add: str_find_def str_rfind_def py_slice_def clamp_index_def)

theorem route_degrades_on_malformed_text_witness:
  "route chatty_env ''hello'' 0 = (Inr (''simple-query'', [''general_query''], JObj []), 1)
   \<and> route broken_env ''hello'' 0 = (Inr (''simple-query'', [''general_query''], JObj []), 1)
   \<and> (\<exists>r. route demo_env ''hello'' 0 = (Inr r, 1))
   \<and> route ascii_stdout_env ''hello'' 0 = (Inl UnicodeEncodeError, 1)
   \<and> route down_env ''hello'' 0 = (Inl RequestException, 1)
   \<and> route failing_env ''hello'' 0 = (Inl HTTPError, 1)"
proof -
  have c1: "call_llm chatty_env (build_prompt ''hello'') 0 = (Inr (JStr ''Sure, I can help''), 1)"
    by (simp add: call_llm_def chatty_env_def demo_env_def demo_loads_def list_index_def)
  have p1: "print_lines chatty_env (no_json_lines ''Sure, I can help'') 1 = (Inr (), 1)"
    by (simp add: no_json_lines_def chatty_env_def demo_env_def)
  from route_degrades_on_malformed_text [where E = chatty_env and user_input = "''hello''"
      and w = 0 and reply = "''Sure, I can help''" and ?w1.0 = 1 and ?w2.0 = 1] c1 demo_no_json p1
  have r1: "route chatty_env ''hello'' 0 = (Inr (''simple-query'', [''general_query''], JObj []), 1)"
    by simp
  have c2: "call_llm broken_env (build_prompt ''hello'') 0 = (Inr (JStr ''{bad}''), 1)"
    by (simp add: call_llm_def broken_env_def demo_env_def demo_loads_def list_index_def)
  have l2: "json_loads broken_env ''{bad}'' = Inl JSONDecodeError"
    by (simp add: broken_env_def demo_env_def demo_loads_def)
  have p2: "print_lines broken_env (parse_error_lines broken_env ''{bad}'' ''{bad}'') 1
      = (Inr (), 1)"
    by (simp add: parse_error_lines_def broken_env_def demo_env_def)
  from route_degrades_on_malformed_text [where E = broken_env and user_input = "''hello''"
      and w = 0 and reply = "''{bad}''" and ?w1.0 = 1 and ?w2.0 = 1] c2 l2 p2 broken_slice
  have r2: "route broken_env ''hello'' 0 = (Inr (''simple-query'', [''general_query''], JObj []), 1)"
    by simp
  have l3: "json_loads demo_env (py_slice ''ok {i} done'' (str_find (CHR ''{'') ''ok {i} done'')
      (str_rfind (CHR ''}'') ''ok {i} done'' + 1))
      = Inr (JObj [(''intents'', JList [JStr ''generate_report'', JStr ''fly'', JInt 3,
                                         JStr ''search_property'', JStr ''generate_report'']),
                      (''slots'', JObj [(''location'', JStr ''Pune''), (''num_rooms'', JInt 0),
                                       (''max_price'', JNull)])])"
    by (simp add: demo_slice demo_env_def demo_loads_def)
  have h3: "\<forall>v \<in> set (input_intents [(''intents'', JList [JStr ''generate_report'', JStr ''fly'',
               JInt 3, JStr ''search_property'', JStr ''generate_report'']),
                      (''slots'', JObj [(''location'', JStr ''Pune''), (''num_rooms'', JInt 0),
                                       (''max_price'', JNull)])]). hashable v"
    by (simp add: input_intents_def)
  have b3: "str_find (CHR ''{'') ''ok {i} done'' \<noteq> - 1
      \<and> str_rfind (CHR ''}'') ''ok {i} done'' + 1 \<noteq> 0"
    by (simp add: str_find_def str_rfind_def)
  from route_degrades_on_malformed_text [where E = demo_env and user_input = "''hello''"
      and w = 0 and reply = "''ok {i} done''" and ?w1.0 = 1]
    demo_call_llm [of "build_prompt ''hello''"] l3 h3 b3
  have r3: "\<exists>r. route demo_env ''hello'' 0 = (Inr r, 1)"
    by blast
  have c4: "call_llm ascii_stdout_env (build_prompt ''hello'') 0
      = (Inr (JStr (''Au caf'' @ [CHR 0xE9])), 1)"
    by (simp add: call_llm_def ascii_stdout_env_def demo_env_def demo_loads_def list_index_def)
  have n4: "str_find (CHR ''{'') (''Au caf'' @ [CHR 0xE9]) = - 1"
    by (simp add: str_find_def)
  have p4: "print_lines ascii_stdout_env (no_json_lines (''Au caf'' @ [CHR 0xE9])) 1
      = (Inl UnicodeEncodeError, 1)"
    by (simp add: no_json_lines_def ascii_stdout_env_def demo_env_def py_slice_to_def
          clamp_index_def)
  from route_degrades_on_malformed_text [where E = ascii_stdout_env
      and user_input = "''hello''" and w = 0 and reply = "''Au caf'' @ [CHR 0xE9]"
      and ?w1.0 = 1 and ?w2.0 = 1 and e = UnicodeEncodeError] c4 n4 p4
  have r4: "route ascii_stdout_env ''hello'' 0 = (Inl UnicodeEncodeError, 1)"
    by simp
  have p5: "requests_post down_env (build_prompt ''hello'') 0 = (Inl RequestException, 1)"
    by (simp add: down_env_def demo_env_def)
  from route_degrades_on_malformed_text
         [where E = down_env and user_input = "''hello''" and w = 0 and ?w1.0 = 1
            and e = RequestException] p5
  have r5: "route down_env ''hello'' 0 = (Inl RequestException, 1)"
    by blast
  have p6: "requests_post failing_env (build_prompt ''hello'') 0
      = (Inr \<lparr>status_code = 503, body = []\<rparr>, 1)"
    by (simp add: failing_env_def demo_env_def)
  from route_degrades_on_malformed_text
         [where E = failing_env and user_input = "''hello''" and w = 0 and ?w1.0 = 1
            and response = "\<lparr>status_code = 503, body = []\<rparr>"] p6
  have r6: "route failing_env ''hello'' 0 = (Inl HTTPError, 1)"
    by simp
  from r1 r2 r3 r4 r5 r6 show ?thesis by blast
qed

lemma project_slots_dict:
  "project_slots (JObj d) keys =
     Inr (map (\<lambda>k. (k, dict_get d k)) (filter (\<lambda>k. dict_get d k \<noteq> JNull) keys))"
  by (induction keys) (auto simp: dict_get_def split: option.splits)

lemma plan_tasks_dict:
  "\<exists>tasks. plan_tasks intents (JObj d) = Inr tasks \<and> length tasks = length intents
      \<and> map agent tasks = intents"
  by (induction intents) (auto simp: extract_relevant_params_def project_slots_dict)

text \<open>With the slots a dictionary, \<open>plan\<close> returns the empty list for an out-of-scope
  query, and one task per intent, in order, for a simple query (one intent) and for a
  complex query; every output of \<open>route\<close> is of one of these three kinds, the simple one
  exactly when there is one validated intent.\<close>

lemma plan_length_mapping:
  "plan ''out_of_scope'' intents slots = Inr []
   \<and> (length intents = 1 \<longrightarrow>
        (\<exists>tasks. plan ''simple-query'' intents (JObj d) = Inr tasks
           \<and> length tasks = length intents \<and> map agent tasks = intents))
   \<and> (intents \<noteq> [] \<longrightarrow>
        (\<exists>tasks. plan ''complex-query'' intents (JObj d) = Inr tasks
           \<and> length tasks = length intents \<and> map agent tasks = intents))
   \<and> (route E user_input w = (Inr (query_type, validated, JObj d), w') \<longrightarrow>
        query_type \<in> {''out_of_scope'', ''simple-query'', ''complex-query''}
        \<and> (\<exists>tasks. plan query_type validated (JObj d) = Inr tasks
              \<and> (query_type = ''out_of_scope'' \<longrightarrow> tasks = [])
              \<and> (query_type \<noteq> ''out_of_scope'' \<longrightarrow>
                    length tasks = length validated \<and> map agent tasks = validated)))"
proof (intro conjI impI)
  show "plan ''out_of_scope'' intents slots = Inr []"
    by (simp add: plan_def)
next
  assume "length intents = 1"
  then obtain intent where "intents = [intent]"
    by (cases intents) auto
  then show "\<exists>tasks. plan ''simple-query'' intents (JObj d) = Inr tasks
           \<and> length tasks = length intents \<and> map agent tasks = intents"
    by (simp add: plan_def plan_simple_def extract_relevant_params_def project_slots_dict)
next
  assume "intents \<noteq> []"
  then show "\<exists>tasks. plan ''complex-query'' intents (JObj d) = Inr tasks
           \<and> length tasks = length intents \<and> map agent tasks = intents"
    using plan_tasks_dict [of intents d] by (simp add: plan_def plan_complex_def)
next
  assume r: "route E user_input w = (Inr (query_type, validated, JObj d), w')"
  from route_output [OF r]
  show "query_type \<in> {''out_of_scope'', ''simple-query'', ''complex-query''}"
    by auto
  from route_output [OF r]
  consider "query_type = ''out_of_scope''"
    | intent where "query_type = ''simple-query''" "validated = [intent]"
    | "query_type = ''complex-query''" "validated \<noteq> []"
    by (cases validated) auto
  then show "\<exists>tasks. plan query_type validated (JObj d) = Inr tasks
              \<and> (query_type = ''out_of_scope'' \<longrightarrow> tasks = [])
              \<and> (query_type \<noteq> ''out_of_scope'' \<longrightarrow>
                    length tasks = length validated \<and> map agent tasks = validated)"
  proof cases
    case 1
    then show ?thesis by (simp add: plan_def)
  next
    case 2
    then show ?thesis
      by (simp add: plan_def plan_simple_def extract_relevant_params_def project_slots_dict)
  next
    case 3
    then show ?thesis
      using plan_tasks_dict [of validated d] by (simp add: plan_def plan_complex_def)
  qed
qed

lemma null_slots_call_llm:
  "call_llm null_slots_env p 0 = (Inr (JStr ''{n}''), 1)"
  by (simp add: call_llm_def null_slots_env_def demo_env_def demo_loads_def list_index_def)

text \<open>
  C3. A completion whose \<^verbatim>\<open>slots\<close> entry is \<^verbatim>\<open>null\<close> passes the validation as it is (only a
  missing entry is replaced by an empty dictionary), so \<open>route\<close> classifies the query as
  simple, with its one validated intent, and hands \<^verbatim>\<open>None\<close> to the planner as the slots.
  There \<open>plan\<close> does not return the one task: the membership test of the first allow-listed
  key raises \<^verbatim>\<open>TypeError\<close>, and the turn ends with that exception.
\<close>

theorem plan_raises_on_null_slots:
  "route null_slots_env ''Find flats'' 0
     = (Inr (''simple-query'', [''search_property''], JNull), 1)
   \<and> plan ''simple-query'' [''search_property''] JNull = Inl TypeError
   \<and> fst (chat null_slots_env ''Find flats'' demo_bot) = Inl TypeError"
proof -
  have e: "extract_json null_slots_env ''{n}'' 1
     = (Inr (JObj [(''intents'', JList [JStr ''search_property'']), (''slots'', JNull),
                   (''in_scope'', JBool True)]), 1)"
    by (simp add: extract_json_def str_find_def str_rfind_def py_slice_def clamp_index_def
          null_slots_env_def demo_env_def demo_loads_def validate_and_clean_def
          ensure_intents_list_def store_validated_def py_eq_def allowed_intents_def Let_def)
  have r: "route null_slots_env ''Find flats'' 0
     = (Inr (''simple-query'', [''search_property''], JNull), 1)"
    by (simp add: route_unfold [OF null_slots_call_llm] e [simplified] classify_def)
  have p: "plan ''simple-query'' [''search_property''] JNull = Inl TypeError"
    by (simp add: plan_def plan_simple_def extract_relevant_params_def relevant_keys_def
          agent_params_def)
  have w: "world (add_message null_slots_env ''user'' ''Find flats'' demo_bot) = 0"
    by (simp add: add_message_def demo_bot_def)
  have d: "print_lines null_slots_env
             (debug_route null_slots_env ''simple-query'' [''search_property''] JNull) 1
           = (Inr (), 1)"
    by (simp add: debug_route_def null_slots_env_def demo_env_def)
  have "fst (chat null_slots_env ''Find flats'' demo_bot) = Inl TypeError"
    by (simp add: chat_def chat_with_def Let_def w r d [simplified] p)
  with r p show ?thesis by simp
qed

lemma demo_route:
  "route demo_env ''Find flats in Pune and make a report'' 0 =
     (Inr (''complex-query'', [''generate_report'', ''search_property''],
           JObj [(''location'', JStr ''Pune''), (''num_rooms'', JInt 0), (''max_price'', JNull)]),
      1)"
proof -
  have e: "extract_json demo_env ''ok {i} done'' 1
     = (Inr (JObj [(''intents'', JList [JStr ''generate_report'', JStr ''search_property'']),
                   (''slots'', JObj [(''location'', JStr ''Pune''), (''num_rooms'', JInt 0),
                                    (''max_price'', JNull)]),
                   (''in_scope'', JBool True)]), 1)"
    by (simp add: extract_json_def str_find_def str_rfind_def py_slice_def clamp_index_def
          demo_env_def demo_loads_def validate_and_clean_def ensure_intents_list_def
          store_validated_def py_eq_def allowed_intents_def Let_def)
  show ?thesis
    by (simp add: route_unfold [OF demo_call_llm] e [simplified] classify_def)
qed

lemma relevant_keys_table:
  "relevant_keys ''search_property''
      = [''location'', ''num_rooms'', ''max_price'', ''property_size_sqft'']"
  "relevant_keys ''estimate_renovation'' = [''property_size_sqft'', ''num_rooms'']"
  "relevant_keys ''generate_report'' = []"
  "relevant_keys ''save_preference'' = [''location'', ''num_rooms'', ''max_price'']"
  "relevant_keys ''web_research'' = []"
  "relevant_keys ''general_query'' = [''certificate_keywords'']"
  by (simp_all add: relevant_keys_def agent_params_def)

lemma relevant_keys_other: "intent \<notin> set allowed_intents \<Longrightarrow> relevant_keys intent = []"
  by (simp add: relevant_keys_def agent_params_def allowed_intents_def)

text \<open>What the comprehension keeps, whatever the slots are: keys of the list it is given,
  each with the value the slots have for it, never \<^verbatim>\<open>None\<close>.\<close>

lemma project_slots_sound:
  "project_slots sl keys = Inr ps \<Longrightarrow> (k, v) \<in> set ps \<Longrightarrow>
   k \<in> set keys \<and> v \<noteq> JNull \<and> py_getitem sl k = Inr v"
  by (induction keys arbitrary: ps) (auto split: sum.splits bool.splits if_splits)

lemma plan_tasks_params:
  "plan_tasks intents sl = Inr tasks \<Longrightarrow> t \<in> set tasks \<Longrightarrow>
   extract_relevant_params (agent t) sl = Inr (params t)"
  by (induction intents arbitrary: tasks) (auto split: sum.splits)

text \<open>Every task of a plan carries the parameters extracted for its own agent; the one
  exception is the \<^verbatim>\<open>general_query\<close> task made for an empty list of intents, which has
  none.\<close>

lemma plan_params:
  assumes "plan query_type intents sl = Inr tasks" "t \<in> set tasks"
  shows "(intents = [] \<and> params t = [])
         \<or> extract_relevant_params (agent t) sl = Inr (params t)"
proof (cases intents)
  case Nil
  with assms show ?thesis
    by (auto simp: plan_def plan_simple_def plan_complex_def split: if_splits)
next
  case (Cons intent rest)
  with assms show ?thesis
    by (auto simp: plan_def plan_simple_def plan_complex_def
             dest: plan_tasks_params split: if_splits sum.splits)
qed

lemma plan_params_allowed:
  assumes "plan query_type intents sl = Inr tasks" "t \<in> set tasks" "(k, v) \<in> set (params t)"
  shows "k \<in> set (relevant_keys (agent t)) \<and> v \<noteq> JNull \<and> py_getitem sl k = Inr v"
  using plan_params [OF assms(1,2)] assms(3)
  by (auto simp: extract_relevant_params_def dest: project_slots_sound)

lemma plan_mapping_total: "\<exists>tasks. plan query_type intents (JObj d) = Inr tasks"
  using plan_tasks_dict [of intents d]
  by (auto simp: plan_def plan_simple_def plan_complex_def extract_relevant_params_def
        project_slots_dict split: list.splits)

text \<open>
  C4. For every intent and every dictionary of slots, the parameters the planner
  extracts are exactly the slots that are on the intent's allow-list, present and not
  \<^verbatim>\<open>None\<close>; the allow-lists are the six of the table, and empty for any other name. Every
  task of every plan carries such parameters: whatever the query type, the intents and
  the slots, each key of a task's parameters is on the allow-list of the task's own
  agent and has the value the slots give it, which is not \<^verbatim>\<open>None\<close>; on a dictionary of
  slots \<open>plan\<close> always returns, and the parameters of each task made for an intent are
  the ones extracted for that intent.
\<close>

theorem params_within_allow_list:
  "(\<exists>ps. extract_relevant_params intent (JObj slots) = Inr ps
      \<and> (\<forall>(k, v) \<in> set ps. k \<in> set (relevant_keys intent) \<and> v \<noteq> JNull
            \<and> map_of slots k = Some v)
      \<and> (\<forall>k \<in> set (relevant_keys intent). \<forall>v. map_of slots k = Some v \<and> v \<noteq> JNull
            \<longrightarrow> (k, v) \<in> set ps))
   \<and> set (relevant_keys ''search_property'')
        = {''location'', ''num_rooms'', ''max_price'', ''property_size_sqft''}
   \<and> set (relevant_keys ''estimate_renovation'') = {''property_size_sqft'', ''num_rooms''}
   \<and> set (relevant_keys ''generate_report'') = {}
   \<and> set (relevant_keys ''save_preference'') = {''location'', ''num_rooms'', ''max_price''}
   \<and> set (relevant_keys ''web_research'') = {}
   \<and> set (relevant_keys ''general_query'') = {''certificate_keywords''}
   \<and> (intent \<notin> set allowed_intents \<longrightarrow> relevant_keys intent = [])
   \<and> (plan query_type intents sl = Inr tasks \<longrightarrow>
        (\<forall>t \<in> set tasks. \<forall>(k, v) \<in> set (params t).
            k \<in> set (relevant_keys (agent t)) \<and> v \<noteq> JNull \<and> py_getitem sl k = Inr v))
   \<and> (\<exists>planned. plan query_type intents (JObj slots) = Inr planned
        \<and> (intents \<noteq> [] \<longrightarrow>
             (\<forall>t \<in> set planned.
                 extract_relevant_params (agent t) (JObj slots) = Inr (params t))))"
proof (intro conjI)
  show "\<exists>ps. extract_relevant_params intent (JObj slots) = Inr ps
      \<and> (\<forall>(k, v) \<in> set ps. k \<in> set (relevant_keys intent) \<and> v \<noteq> JNull
            \<and> map_of slots k = Some v)
      \<and> (\<forall>k \<in> set (relevant_keys intent). \<forall>v. map_of slots k = Some v \<and> v \<noteq> JNull
            \<longrightarrow> (k, v) \<in> set ps)"
    by (auto simp: extract_relevant_params_def project_slots_dict dict_get_def
             split: option.splits)
next
  show "plan query_type intents sl = Inr tasks \<longrightarrow>
        (\<forall>t \<in> set tasks. \<forall>(k, v) \<in> set (params t).
            k \<in> set (relevant_keys (agent t)) \<and> v \<noteq> JNull \<and> py_getitem sl k = Inr v)"
    using plan_params_allowed [of query_type intents sl tasks] by blast
next
  from plan_mapping_total [of query_type intents slots] obtain planned where
    p: "plan query_type intents (JObj slots) = Inr planned" ..
  from plan_params [OF p]
  have "intents \<noteq> [] \<longrightarrow>
      (\<forall>t \<in> set planned. extract_relevant_params (agent t) (JObj slots) = Inr (params t))"
    by blast
  with p show "\<exists>planned. plan query_type intents (JObj slots) = Inr planned
        \<and> (intents \<noteq> [] \<longrightarrow>
             (\<forall>t \<in> set planned.
                 extract_relevant_params (agent t) (JObj slots) = Inr (params t)))"
    by blast
qed (auto simp: relevant_keys_table relevant_keys_other)

theorem params_within_allow_list_witness:
  "extract_relevant_params ''search_property''
      (JObj [(''location'', JStr ''Pune''), (''num_rooms'', JInt 0), (''max_price'', JNull),
             (''certificate_keywords'', JStr ''fire safety'')])
     = Inr [(''location'', JStr ''Pune''), (''num_rooms'', JInt 0)]
   \<and> ''location'' \<in> set (relevant_keys ''search_property'')
   \<and> ''num_rooms'' \<in> set (relevant_keys ''search_property'')
   \<and> ''certificate_keywords'' \<notin> set (relevant_keys ''search_property'')
   \<and> ''bogus'' \<notin> set allowed_intents
   \<and> relevant_keys ''bogus'' = []
   \<and> plan ''complex-query'' [''generate_report'', ''search_property'']
        (JObj [(''location'', JStr ''Pune''), (''num_rooms'', JInt 0), (''max_price'', JNull),
               (''certificate_keywords'', JStr ''fire safety'')])
      = Inr [\<lparr>agent = ''generate_report'', params = []\<rparr>,
             \<lparr>agent = ''search_property'',
              params = [(''location'', JStr ''Pune''), (''num_rooms'', JInt 0)]\<rparr>]
   \<and> py_getitem (JObj [(''location'', JStr ''Pune''), (''num_rooms'', JInt 0),
                       (''max_price'', JNull),
                       (''certificate_keywords'', JStr ''fire safety'')]) ''num_rooms''
      = Inr (JInt 0)"
proof -
  have e: "extract_relevant_params ''search_property''
      (JObj [(''location'', JStr ''Pune''), (''num_rooms'', JInt 0), (''max_price'', JNull),
             (''certificate_keywords'', JStr ''fire safety'')])
     = Inr [(''location'', JStr ''Pune''), (''num_rooms'', JInt 0)]"
    by (simp add: extract_relevant_params_def relevant_keys_def agent_params_def)
  have b: "''bogus'' \<notin> set allowed_intents"
    by (simp add: allowed_intents_def)
  have p: "plan ''complex-query'' [''generate_report'', ''search_property'']
        (JObj [(''location'', JStr ''Pune''), (''num_rooms'', JInt 0), (''max_price'', JNull),
               (''certificate_keywords'', JStr ''fire safety'')])
      = Inr [\<lparr>agent = ''generate_report'', params = []\<rparr>,
             \<lparr>agent = ''search_property'',
              params = [(''location'', JStr ''Pune''), (''num_rooms'', JInt 0)]\<rparr>]"
    by (simp add: plan_def plan_complex_def extract_relevant_params_def relevant_keys_def
          agent_params_def)
  from params_within_allow_list [of "''search_property''"
      "[(''location'', JStr ''Pune''), (''num_rooms'', JInt 0), (''max_price'', JNull),
        (''certificate_keywords'', JStr ''fire safety'')]"]
  have s: "''location'' \<in> set (relevant_keys ''search_property'')
     \<and> ''num_rooms'' \<in> set (relevant_keys ''search_property'')
     \<and> ''certificate_keywords'' \<notin> set (relevant_keys ''search_property'')"
    by simp
  from params_within_allow_list [of "''bogus''" "[]"] b
  have k: "relevant_keys ''bogus'' = []"
    by blast
  from params_within_allow_list [where query_type = "''complex-query''"
      and intents = "[''generate_report'', ''search_property'']"
      and sl = "JObj [(''location'', JStr ''Pune''), (''num_rooms'', JInt 0),
                      (''max_price'', JNull),
                      (''certificate_keywords'', JStr ''fire safety'')]"
      and tasks = "[\<lparr>agent = ''generate_report'', params = []\<rparr>,
             \<lparr>agent = ''search_property'',
              params = [(''location'', JStr ''Pune''), (''num_rooms'', JInt 0)]\<rparr>]"] p
  have g: "py_getitem (JObj [(''location'', JStr ''Pune''), (''num_rooms'', JInt 0),
                       (''max_price'', JNull),
                       (''certificate_keywords'', JStr ''fire safety'')]) ''num_rooms''
      = Inr (JInt 0)"
    by simp
  from e b s k p g show ?thesis by simp
qed

section \<open>Properties of the memory and of the structured search\<close>

lemma negative_slice: "0 < n \<Longrightarrow> py_slice_from xs (- int n) = drop (length xs - n) xs"
proof -
  assume "0 < n"
  have "nat (max 0 (int (length xs) - int n)) = length xs - n"
    by linarith
  with \<open>0 < n\<close> show ?thesis
    by (simp add: py_slice_from_def clamp_index_def)
qed

text \<open>
  C10, as the code has it. Reading the history with \<^verbatim>\<open>last_n = n\<close> for a natural number
  \<open>n \<ge> 1\<close> returns the most recent \<open>n\<close> turns in chronological order (all of them when
  there are fewer than \<open>n\<close>); with \<open>n = 0\<close>, as with no \<^verbatim>\<open>last_n\<close>, it returns the entire
  history.
\<close>

theorem history_last_n:
  "get_conversation_history None st = episodic st
   \<and> get_conversation_history (Some 0) st = episodic st
   \<and> (0 < n \<longrightarrow>
        get_conversation_history (Some (int n)) st
          = drop (length (episodic st) - n) (episodic st)
        \<and> length (get_conversation_history (Some (int n)) st) = min n (length (episodic st))
        \<and> (\<exists>older. episodic st = older @ get_conversation_history (Some (int n)) st))"
proof (intro conjI impI)
  assume n: "0 < n"
  then show g: "get_conversation_history (Some (int n)) st
          = drop (length (episodic st) - n) (episodic st)"
    by (simp add: get_conversation_history_def negative_slice)
  show "length (get_conversation_history (Some (int n)) st) = min n (length (episodic st))"
    by (simp add: g)
  show "\<exists>older. episodic st = older @ get_conversation_history (Some (int n)) st"
    by (intro exI [of _ "take (length (episodic st) - n) (episodic st)"]) (simp add: g)
qed (simp_all add: get_conversation_history_def)

theorem history_last_n_witness:
  "(0::nat) < 2
   \<and> get_conversation_history (Some 2) demo_bot
       = [\<lparr>role = ''assistant'', content = ''hi'', timestamp = ''t1''\<rparr>,
          \<lparr>role = ''user'', content = ''bye'', timestamp = ''t2''\<rparr>]"
  using history_last_n [of demo_bot 2]
  by (simp add: demo_bot_def)

text \<open>C10 as stated fails: \<^verbatim>\<open>last_n = 0\<close> yields the three turns of the log, not zero.\<close>

theorem history_zero_counterexample:
  "get_conversation_history (Some 0) demo_bot
     = [\<lparr>role = ''user'', content = ''hello'', timestamp = ''t0''\<rparr>,
        \<lparr>role = ''assistant'', content = ''hi'', timestamp = ''t1''\<rparr>,
        \<lparr>role = ''user'', content = ''bye'', timestamp = ''t2''\<rparr>]"
  by (simp add: get_conversation_history_def demo_bot_def)

text \<open>
  C7, as the code has it. Every filter whose value is true in Python's sense (present,
  not \<^verbatim>\<open>None\<close>, not zero, not empty) contributes its condition and its parameter to the
  query, in the fixed order location, rooms, maximum price, minimum price, size; a filter
  that is absent or whose value is false in that sense contributes nothing.
\<close>

theorem build_query_conditions:
  "build_query E filters =
     (''SELECT * FROM properties WHERE 1=1''
        @ concat (map (\<lambda>(k, clause, param). clause)
                   (filter (\<lambda>(k, clause, param). truthy (dict_get filters k))
                      (filter_conditions E)))
        @ '' ORDER BY price ASC LIMIT 10'',
      map (\<lambda>(k, clause, param). param (dict_get filters k))
        (filter (\<lambda>(k, clause, param). truthy (dict_get filters k)) (filter_conditions E)))"
  by (simp add: build_query_def filter_conditions_def Let_def)

text \<open>C7 as stated fails: a room count of zero is present in the filters and adds no
  condition.\<close>

theorem build_query_ignores_zero_counterexample:
  "build_query demo_env [(''num_rooms'', JInt 0)]
     = (''SELECT * FROM properties WHERE 1=1 ORDER BY price ASC LIMIT 10'', [])"
  by (simp add: build_query_def dict_get_def Let_def)

section \<open>Properties of the handlers\<close>














lemma take_ten: "py_slice_to xs 10 = take 10 xs"
  by (simp add: py_slice_to_def clamp_index_def min_def)

lemma get_context_report:
  "get_context (E\<lparr>report_generate := g\<rparr>) key st = get_context E key st"
  by (simp add: get_context_def split: prod.splits sum.splits option.splits)

lemma handle_report_nothing_stored:
  assumes "get_context E ''last_search_results'' st = (Inr v, st1)" "\<not> truthy v"
  shows "handle_report (E\<lparr>report_generate := g\<rparr>) slots st
     = (Inr ''No recent property searches found. Please search for properties first.'', st1)"
  using assms by (simp add: handle_report_def get_context_report)

lemma handle_report_stored:
  assumes "get_context E ''last_search_results'' st = (Inr (JList props), st1)" "props \<noteq> []"
    "report_generate E (JList (take 10 props)) (world st1) = (Inr pdf_path, w')"
  shows "handle_report E slots st
     = (Inr (''Report generated successfully! Saved to: '' @ pdf_path), st1\<lparr>world := w'\<rparr>)"
  using assms by (simp add: handle_report_def take_ten)

lemma dict_get_set: "dict_get (dict_set k v d) k = v"
  by (simp add: dict_get_def map_of_dict_set)

lemma handle_search_stores:
  assumes r: "\<not> redis_available st"
    and s: "search_properties E filters (world st) = (Inr props, w1)" and n: "props \<noteq> []"
    and f: "format_properties E (take 10 props) = Inr lines"
  shows "\<exists>response st2. handle_search E filters st = (Inr response, st2)
     \<and> \<not> redis_available st2
     \<and> get_context E ''last_search_results'' st2 = (Inr (JList props), st2)"
  using assms
  by (simp add: handle_search_def Let_def take_ten set_context_def get_context_def
        full_key_def dict_get_set)

lemma get_context_fallback:
  "\<not> redis_available st \<Longrightarrow>
   get_context E key st = (Inr (dict_get (shortterm st) (full_key st key)), st)"
  by (simp add: get_context_def)

text \<open>The networked session store: a read decodes the text the store returns, and an
  absent or empty text reads as \<^verbatim>\<open>None\<close>; a search that found properties writes their
  encoding under the key, for an hour.\<close>

lemma get_context_redis:
  assumes "redis_available st" "redis_get E (full_key st key) (world st) = (Inr cached, w1)"
  shows "get_context E key st =
     ((case cached of
         None \<Rightarrow> Inr JNull
       | Some s \<Rightarrow> (if s = [] then Inr JNull else json_loads E s)),
      st\<lparr>world := w1\<rparr>)"
  using assms by (simp add: get_context_def split: option.splits)

lemma handle_search_caches:
  assumes r: "redis_available st"
    and s: "search_properties E filters (world st) = (Inr props, w1)" and n: "props \<noteq> []"
    and f: "format_properties E (take 10 props) = Inr lines"
    and d: "json_dumps E (JList props) = Inr encoded"
    and x: "redis_setex E (full_key st ''last_search_results'') 3600 encoded w1 = (Inr (), w2)"
  shows "\<exists>response. handle_search E filters st = (Inr response, st\<lparr>world := w2\<rparr>)"
  using assms
  by (simp add: handle_search_def Let_def take_ten set_context_def full_key_def)

lemma handle_report_cached:
  assumes r: "redis_available st"
    and g: "redis_get E (full_key st ''last_search_results'') (world st) = (Inr (Some encoded), w1)"
    and e: "encoded \<noteq> []" and l: "json_loads E encoded = Inr (JList props)"
    and n: "props \<noteq> []"
    and b: "report_generate E (JList (take 10 props)) w1 = (Inr pdf_path, w2)"
  shows "handle_report E slots st
     = (Inr (''Report generated successfully! Saved to: '' @ pdf_path), st\<lparr>world := w2\<rparr>)"
proof -
  from get_context_redis [OF r g] e l
  have "get_context E ''last_search_results'' st = (Inr (JList props), st\<lparr>world := w1\<rparr>)"
    by simp
  from handle_report_stored [OF this n] b show ?thesis by simp
qed

text \<open>
  C6. The report handler reads \<^verbatim>\<open>last_search_results\<close> from the session store. When the
  store has nothing for it or an empty list (any value that is false in Python's sense),
  the handler returns the message to search first, whatever the report builder is: the
  builder is not run. When it has a non-empty list, the builder is run on the first ten of
  its elements, and the handler reports the path the builder returns. With the in-process
  session store, a search that found properties has stored them all, and they are read
  back from any later state with the same store; with nothing stored the read is
  \<^verbatim>\<open>None\<close>. With the networked session store, a read is the decoding of the text the
  store returns for the key, \<^verbatim>\<open>None\<close> when there is no text or an empty one; a search
  that found properties writes the encoding of them all under the key; and when the
  store returns a text that decodes to a non-empty list, the report is built from the
  first ten of its elements.
\<close>

theorem report_needs_stored_results:
  "(get_context E ''last_search_results'' st = (Inr v, st1) \<and> \<not> truthy v \<longrightarrow>
      (\<forall>g. handle_report (E\<lparr>report_generate := g\<rparr>) slots st
         = (Inr ''No recent property searches found. Please search for properties first.'',
            st1)))
   \<and> \<not> truthy JNull \<and> \<not> truthy (JList [])
   \<and> (get_context E ''last_search_results'' st = (Inr (JList props), st1) \<and> props \<noteq> []
        \<and> report_generate E (JList (take 10 props)) (world st1) = (Inr pdf_path, w')
      \<longrightarrow> handle_report E slots st
            = (Inr (''Report generated successfully! Saved to: '' @ pdf_path),
               st1\<lparr>world := w'\<rparr>))
   \<and> (\<not> redis_available st \<and> search_properties E filters (world st) = (Inr found, w1)
        \<and> found \<noteq> [] \<and> format_properties E (take 10 found) = Inr lines
      \<longrightarrow> (\<exists>response st2. handle_search E filters st = (Inr response, st2)
              \<and> \<not> redis_available st2
              \<and> get_context E ''last_search_results'' st2 = (Inr (JList found), st2)))
   \<and> (\<not> redis_available st \<and> \<not> redis_available st3 \<and> user_id st3 = user_id st
        \<and> shortterm st3 = shortterm st
      \<longrightarrow> fst (get_context E ''last_search_results'' st3)
            = fst (get_context E ''last_search_results'' st))
   \<and> (\<not> redis_available st \<and> map_of (shortterm st) (full_key st ''last_search_results'') = None
      \<longrightarrow> get_context E ''last_search_results'' st = (Inr JNull, st))
   \<and> (redis_available st
        \<and> redis_get E (full_key st ''last_search_results'') (world st) = (Inr cached, w1)
      \<longrightarrow> get_context E ''last_search_results'' st =
            ((case cached of
                None \<Rightarrow> Inr JNull
              | Some s \<Rightarrow> (if s = [] then Inr JNull else json_loads E s)),
             st\<lparr>world := w1\<rparr>))
   \<and> (redis_available st \<and> search_properties E filters (world st) = (Inr found, w1)
        \<and> found \<noteq> [] \<and> format_properties E (take 10 found) = Inr lines
        \<and> json_dumps E (JList found) = Inr encoded
        \<and> redis_setex E (full_key st ''last_search_results'') 3600 encoded w1 = (Inr (), w2)
      \<longrightarrow> (\<exists>response. handle_search E filters st = (Inr response, st\<lparr>world := w2\<rparr>)))
   \<and> (redis_available st
        \<and> redis_get E (full_key st ''last_search_results'') (world st)
            = (Inr (Some encoded), w1)
        \<and> encoded \<noteq> [] \<and> json_loads E encoded = Inr (JList props) \<and> props \<noteq> []
        \<and> report_generate E (JList (take 10 props)) w1 = (Inr pdf_path, w2)
      \<longrightarrow> handle_report E slots st
            = (Inr (''Report generated successfully! Saved to: '' @ pdf_path),
               st\<lparr>world := w2\<rparr>))"
proof (intro conjI impI allI)
  fix g
  assume "get_context E ''last_search_results'' st = (Inr v, st1) \<and> \<not> truthy v"
  then show "handle_report (E\<lparr>report_generate := g\<rparr>) slots st
         = (Inr ''No recent property searches found. Please search for properties first.'',
            st1)"
    by (elim conjE) (rule handle_report_nothing_stored)
next
  assume "get_context E ''last_search_results'' st = (Inr (JList props), st1) \<and> props \<noteq> []
        \<and> report_generate E (JList (take 10 props)) (world st1) = (Inr pdf_path, w')"
  then show "handle_report E slots st
            = (Inr (''Report generated successfully! Saved to: '' @ pdf_path),
               st1\<lparr>world := w'\<rparr>)"
    by (elim conjE) (rule handle_report_stored)
next
  assume "\<not> redis_available st \<and> search_properties E filters (world st) = (Inr found, w1)
        \<and> found \<noteq> [] \<and> format_properties E (take 10 found) = Inr lines"
  then show "\<exists>response st2. handle_search E filters st = (Inr response, st2)
              \<and> \<not> redis_available st2
              \<and> get_context E ''last_search_results'' st2 = (Inr (JList found), st2)"
    by (elim conjE) (rule handle_search_stores)
next
  assume "\<not> redis_available st \<and> \<not> redis_available st3 \<and> user_id st3 = user_id st
        \<and> shortterm st3 = shortterm st"
  then show "fst (get_context E ''last_search_results'' st3)
            = fst (get_context E ''last_search_results'' st)"
    by (simp add: get_context_fallback full_key_def)
next
  assume "\<not> redis_available st
      \<and> map_of (shortterm st) (full_key st ''last_search_results'') = None"
  then show "get_context E ''last_search_results'' st = (Inr JNull, st)"
    by (simp add: get_context_fallback dict_get_def)
next
  assume "redis_available st
        \<and> redis_get E (full_key st ''last_search_results'') (world st) = (Inr cached, w1)"
  then show "get_context E ''last_search_results'' st =
            ((case cached of
                None \<Rightarrow> Inr JNull
              | Some s \<Rightarrow> (if s = [] then Inr JNull else json_loads E s)),
             st\<lparr>world := w1\<rparr>)"
    by (elim conjE) (rule get_context_redis)
next
  assume "redis_available st \<and> search_properties E filters (world st) = (Inr found, w1)
        \<and> found \<noteq> [] \<and> format_properties E (take 10 found) = Inr lines
        \<and> json_dumps E (JList found) = Inr encoded
        \<and> redis_setex E (full_key st ''last_search_results'') 3600 encoded w1 = (Inr (), w2)"
  then show "\<exists>response. handle_search E filters st = (Inr response, st\<lparr>world := w2\<rparr>)"
    by (elim conjE) (rule handle_search_caches)
next
  assume "redis_available st
        \<and> redis_get E (full_key st ''last_search_results'') (world st)
            = (Inr (Some encoded), w1)
        \<and> encoded \<noteq> [] \<and> json_loads E encoded = Inr (JList props) \<and> props \<noteq> []
        \<and> report_generate E (JList (take 10 props)) w1 = (Inr pdf_path, w2)"
  then show "handle_report E slots st
            = (Inr (''Report generated successfully! Saved to: '' @ pdf_path),
               st\<lparr>world := w2\<rparr>)"
    by (elim conjE) (rule handle_report_cached)
qed simp_all

lemma demo_search:
  "handle_search demo_env [] demo_bot
     = (Inr (''Found ? properties:'' @ [CHR 0x0A, CHR 0x0A] @ ''- row- row''), searched_bot)"
  by (simp add: handle_search_def search_properties_def build_query_def dict_get_def Let_def
        take_ten demo_env_def demo_rows_def set_context_def full_key_def demo_bot_def
        searched_bot_def)

lemma cache_search:
  "handle_search cache_env [] cache_bot
     = (Inr (''Found ? properties:'' @ [CHR 0x0A, CHR 0x0A] @ ''- row- row''),
        cache_bot\<lparr>world := [(''session:u1:last_search_results'', ''rows'')]\<rparr>)"
  by (simp add: handle_search_def search_properties_def build_query_def dict_get_def Let_def
        take_ten cache_env_def demo_rows_def set_context_def full_key_def cache_bot_def)

theorem report_needs_stored_results_witness:
  "handle_report demo_env [] demo_bot
     = (Inr ''No recent property searches found. Please search for properties first.'',
        demo_bot)
   \<and> handle_search demo_env [] demo_bot
     = (Inr (''Found ? properties:'' @ [CHR 0x0A, CHR 0x0A] @ ''- row- row''), searched_bot)
   \<and> get_context demo_env ''last_search_results'' searched_bot
     = (Inr (JList demo_rows), searched_bot)
   \<and> handle_report demo_env [] searched_bot
     = (Inr ''Report generated successfully! Saved to: report.pdf'', searched_bot\<lparr>world := 2\<rparr>)
   \<and> handle_report cache_env [] cache_bot
     = (Inr ''No recent property searches found. Please search for properties first.'',
        cache_bot)
   \<and> handle_search cache_env [] cache_bot
     = (Inr (''Found ? properties:'' @ [CHR 0x0A, CHR 0x0A] @ ''- row- row''),
        cache_bot\<lparr>world := [(''session:u1:last_search_results'', ''rows'')]\<rparr>)
   \<and> handle_report cache_env [] (cache_bot\<lparr>world := [(''session:u1:last_search_results'', ''rows'')]\<rparr>)
     = (Inr ''Report generated successfully! Saved to: report.pdf'',
        cache_bot\<lparr>world := [(''session:u1:last_search_results'', ''rows'')]\<rparr>)"
proof -
  have g0: "get_context demo_env ''last_search_results'' demo_bot = (Inr JNull, demo_bot)"
    by (simp add: get_context_def demo_bot_def dict_get_def)
  have e: "demo_env\<lparr>report_generate := report_generate demo_env\<rparr> = demo_env"
    by simp
  from report_needs_stored_results [where E = demo_env and st = demo_bot and v = JNull
      and ?st1.0 = demo_bot and slots = "[]"] g0
  have "\<forall>g. handle_report (demo_env\<lparr>report_generate := g\<rparr>) [] demo_bot
     = (Inr ''No recent property searches found. Please search for properties first.'',
        demo_bot)"
    by simp
  then have r0: "handle_report demo_env [] demo_bot
     = (Inr ''No recent property searches found. Please search for properties first.'',
        demo_bot)"
    using e by metis
  have g1: "get_context demo_env ''last_search_results'' searched_bot
     = (Inr (JList demo_rows), searched_bot)"
    by (simp add: get_context_def searched_bot_def demo_bot_def dict_get_def full_key_def)
  have b: "report_generate demo_env (JList (take 10 demo_rows)) (world searched_bot)
     = (Inr ''report.pdf'', 2)"
    by (simp add: demo_env_def searched_bot_def)
  have n: "demo_rows \<noteq> []"
    by (simp add: demo_rows_def)
  from report_needs_stored_results [where E = demo_env and st = searched_bot
      and props = demo_rows and ?st1.0 = searched_bot and pdf_path = "''report.pdf''"
      and w' = 2 and slots = "[]"] g1 b n
  have r1: "handle_report demo_env [] searched_bot
     = (Inr ''Report generated successfully! Saved to: report.pdf'', searched_bot\<lparr>world := 2\<rparr>)"
    by simp
  have c0: "get_context cache_env ''last_search_results'' cache_bot = (Inr JNull, cache_bot)"
    by (simp add: get_context_def cache_bot_def cache_env_def full_key_def)
  have ce: "cache_env\<lparr>report_generate := report_generate cache_env\<rparr> = cache_env"
    by simp
  from report_needs_stored_results [where E = cache_env and st = cache_bot and v = JNull
      and ?st1.0 = cache_bot and slots = "[]"] c0
  have "\<forall>g. handle_report (cache_env\<lparr>report_generate := g\<rparr>) [] cache_bot
     = (Inr ''No recent property searches found. Please search for properties first.'',
        cache_bot)"
    by simp
  then have r2: "handle_report cache_env [] cache_bot
     = (Inr ''No recent property searches found. Please search for properties first.'',
        cache_bot)"
    using ce by metis
  have a3: "redis_available (cache_bot\<lparr>world := [(''session:u1:last_search_results'', ''rows'')]\<rparr>)"
    by (simp add: cache_bot_def)
  have g3: "redis_get cache_env
      (full_key (cache_bot\<lparr>world := [(''session:u1:last_search_results'', ''rows'')]\<rparr>)
         ''last_search_results'')
      (world (cache_bot\<lparr>world := [(''session:u1:last_search_results'', ''rows'')]\<rparr>))
     = (Inr (Some ''rows''), [(''session:u1:last_search_results'', ''rows'')])"
    by (simp add: cache_env_def cache_bot_def full_key_def)
  have l3: "json_loads cache_env ''rows'' = Inr (JList demo_rows)"
    by (simp add: cache_env_def demo_loads_def)
  have b3: "report_generate cache_env (JList (take 10 demo_rows))
      [(''session:u1:last_search_results'', ''rows'')]
     = (Inr ''report.pdf'', [(''session:u1:last_search_results'', ''rows'')])"
    by (simp add: cache_env_def)
  from report_needs_stored_results [where E = cache_env
      and st = "cache_bot\<lparr>world := [(''session:u1:last_search_results'', ''rows'')]\<rparr>"
      and encoded = "''rows''" and props = demo_rows and pdf_path = "''report.pdf''"
      and ?w1.0 = "[(''session:u1:last_search_results'', ''rows'')]"
      and ?w2.0 = "[(''session:u1:last_search_results'', ''rows'')]" and slots = "[]"]
    a3 g3 l3 b3 n
  have r3: "handle_report cache_env []
      (cache_bot\<lparr>world := [(''session:u1:last_search_results'', ''rows'')]\<rparr>)
     = (Inr ''Report generated successfully! Saved to: report.pdf'',
        cache_bot\<lparr>world := [(''session:u1:last_search_results'', ''rows'')]\<rparr>)"
    by simp
  from r0 demo_search g1 r1 r2 cache_search r3 show ?thesis by simp
qed

section \<open>Properties of the chatbot\<close>

lemma run_tasks_outputs:
  "run_tasks E n i ts user_input acc st =
     (case task_outputs E n i ts user_input st of
        (Inl e, st') \<Rightarrow> (Inl e, st')
      | (Inr outs, st') \<Rightarrow> (Inr (acc @ map2 labeled ts outs), st'))"
  by (induction ts arbitrary: acc st i) (auto split: prod.splits sum.splits)

lemma task_outputs_length:
  "task_outputs E n i ts user_input st = (Inr outs, st') \<Longrightarrow> length outs = length ts"
  by (induction ts arbitrary: outs st i) (auto split: prod.splits sum.splits)

text \<open>The run behind the outputs: the states between the tasks, each task announced and
  then handled on the state the task before it left.\<close>

lemma task_outputs_trace:
  "task_outputs E n j ts user_input st = (Inr outs, st') \<Longrightarrow>
   \<exists>states. length states = Suc (length ts) \<and> states ! 0 = st \<and> states ! length ts = st'
     \<and> (\<forall>i < length ts. \<exists>s0.
            announce E n (j + i) (ts ! i) (states ! i) = (Inr (), s0)
            \<and> execute_task E (ts ! i) user_input s0 = (Inr (outs ! i), states ! Suc i))"
proof (induction ts arbitrary: j st outs)
  case Nil
  then show ?case by (intro exI [of _ "[st]"]) simp
next
  case (Cons t ts)
  from Cons.prems obtain s0 out st1 outs' where
    a: "announce E n j t st = (Inr (), s0)"
    and x: "execute_task E t user_input s0 = (Inr out, st1)"
    and r: "task_outputs E n (Suc j) ts user_input st1 = (Inr outs', st')"
    and o: "outs = out # outs'"
    by (auto split: prod.splits sum.splits)
  from Cons.IH [OF r] obtain states where
    s: "length states = Suc (length ts)" "states ! 0 = st1" "states ! length ts = st'"
    and h: "\<forall>i < length ts. \<exists>s0.
            announce E n (Suc j + i) (ts ! i) (states ! i) = (Inr (), s0)
            \<and> execute_task E (ts ! i) user_input s0 = (Inr (outs' ! i), states ! Suc i)"
    by blast
  have "\<exists>s0. announce E n (j + i) ((t # ts) ! i) ((st # states) ! i) = (Inr (), s0)
            \<and> execute_task E ((t # ts) ! i) user_input s0
                = (Inr (outs ! i), (st # states) ! Suc i)"
    if "i < length (t # ts)" for i
  proof (cases i)
    case 0
    with a x s o show ?thesis by simp
  next
    case (Suc k)
    with that h o show ?thesis by simp
  qed
  with s show ?case
    by (intro exI [of _ "st # states"]) simp
qed

lemma agent_names:
  "title (replace_underscores ''search_property'') = ''Search Property''"
  "title (replace_underscores ''estimate_renovation'') = ''Estimate Renovation''"
  "title (replace_underscores ''generate_report'') = ''Generate Report''"
  "title (replace_underscores ''save_preference'') = ''Save Preference''"
  "title (replace_underscores ''web_research'') = ''Web Research''"
  "title (replace_underscores ''general_query'') = ''General Query''"
  by code_simp+

text \<open>
  C5. The response to a complex query is two newlines followed by the labeled blocks
  joined by the separator line \<^verbatim>\<open>---\<close>; there is one block per task, and the block at
  position \<open>i\<close> is the label of task \<open>i\<close> (its intent name with spaces for underscores, in
  title case, between \<^verbatim>\<open>**\<close> and \<^verbatim>\<open>:**\<close>) followed by the output of the handler of task
  \<open>i\<close>. The handlers run in task order: there are states between the tasks, from the
  state before the query to the one after it, such that task \<open>i\<close> is announced and then
  handled on the state task \<open>i - 1\<close> left, and its output is the body of block \<open>i\<close>.
\<close>

theorem complex_response_in_task_order:
  "execute_complex_tasks E tasks user_input st =
     (case task_outputs E (length tasks) 0 tasks user_input st of
        (Inl e, st') \<Rightarrow> (Inl e, st')
      | (Inr outs, st') \<Rightarrow>
          (Inr (''\<newline>\<newline>''
                @ str_join ''\<newline>\<newline>---\<newline>\<newline>'' (map2 labeled tasks outs)), st'))
   \<and> (task_outputs E (length tasks) 0 tasks user_input st = (Inr outs, st') \<longrightarrow>
        length outs = length tasks
        \<and> length (map2 labeled tasks outs) = length tasks
        \<and> (\<forall>i. i < length tasks \<longrightarrow>
              map2 labeled tasks outs ! i
                = ''**'' @ title (replace_underscores (agent (tasks ! i))) @ '':**\<newline>''
                  @ outs ! i)
        \<and> (\<exists>states. length states = Suc (length tasks) \<and> states ! 0 = st
              \<and> states ! length tasks = st'
              \<and> (\<forall>i. i < length tasks \<longrightarrow> (\<exists>s0.
                     announce E (length tasks) i (tasks ! i) (states ! i) = (Inr (), s0)
                     \<and> execute_task E (tasks ! i) user_input s0
                         = (Inr (outs ! i), states ! Suc i)))))
   \<and> title (replace_underscores ''search_property'') = ''Search Property''
   \<and> title (replace_underscores ''estimate_renovation'') = ''Estimate Renovation''
   \<and> title (replace_underscores ''generate_report'') = ''Generate Report''
   \<and> title (replace_underscores ''save_preference'') = ''Save Preference''
   \<and> title (replace_underscores ''web_research'') = ''Web Research''
   \<and> title (replace_underscores ''general_query'') = ''General Query''"
proof (intro conjI impI allI)
  show "execute_complex_tasks E tasks user_input st =
     (case task_outputs E (length tasks) 0 tasks user_input st of
        (Inl e, st') \<Rightarrow> (Inl e, st')
      | (Inr outs, st') \<Rightarrow>
          (Inr (''\<newline>\<newline>''
                @ str_join ''\<newline>\<newline>---\<newline>\<newline>'' (map2 labeled tasks outs)), st'))"
    by (simp add: execute_complex_tasks_def run_tasks_outputs split: prod.splits sum.splits)
next
  assume t: "task_outputs E (length tasks) 0 tasks user_input st = (Inr outs, st')"
  from task_outputs_length [OF t] show l: "length outs = length tasks" .
  then show "length (map2 labeled tasks outs) = length tasks" by simp
  from task_outputs_trace [OF t]
  show "\<exists>states. length states = Suc (length tasks) \<and> states ! 0 = st
              \<and> states ! length tasks = st'
              \<and> (\<forall>i. i < length tasks \<longrightarrow> (\<exists>s0.
                     announce E (length tasks) i (tasks ! i) (states ! i) = (Inr (), s0)
                     \<and> execute_task E (tasks ! i) user_input s0
                         = (Inr (outs ! i), states ! Suc i)))"
    by simp
  fix i
  assume "i < length tasks"
  with l show "map2 labeled tasks outs ! i
                = ''**'' @ title (replace_underscores (agent (tasks ! i))) @ '':**\<newline>''
                  @ outs ! i"
    by (simp add: labeled_def agent_name_def)
qed (simp_all only: agent_names)

lemma demo_report:
  "handle_report demo_env [] searched_bot
     = (Inr ''Report generated successfully! Saved to: report.pdf'', searched_bot\<lparr>world := 2\<rparr>)"
  by (simp add: handle_report_def get_context_def searched_bot_def demo_bot_def dict_get_def
        full_key_def demo_env_def demo_rows_def take_ten)

lemma demo_announce: "announce demo_env n i t st = (Inr (), st)"
  by (simp add: announce_def demo_env_def)

theorem complex_response_in_task_order_witness:
  "task_outputs demo_env 2 0
      [\<lparr>agent = ''search_property'', params = []\<rparr>, \<lparr>agent = ''generate_report'', params = []\<rparr>]
      ''Find flats and make a report'' demo_bot
     = (Inr [''Found ? properties:\<newline>\<newline>- row- row'',
             ''Report generated successfully! Saved to: report.pdf''],
        searched_bot\<lparr>world := 2\<rparr>)
   \<and> execute_complex_tasks demo_env
      [\<lparr>agent = ''search_property'', params = []\<rparr>, \<lparr>agent = ''generate_report'', params = []\<rparr>]
      ''Find flats and make a report'' demo_bot
     = (Inr (''\<newline>\<newline>**Search Property:**\<newline>Found ? properties:\<newline>\<newline>- row- row''
             @ ''\<newline>\<newline>---\<newline>\<newline>''
             @ ''**Generate Report:**\<newline>Report generated successfully! Saved to: report.pdf''),
        searched_bot\<lparr>world := 2\<rparr>)"
proof -
  have t: "task_outputs demo_env
      (length [\<lparr>agent = ''search_property'', params = []\<rparr>,
               \<lparr>agent = ''generate_report'', params = []\<rparr>]) 0
      [\<lparr>agent = ''search_property'', params = []\<rparr>, \<lparr>agent = ''generate_report'', params = []\<rparr>]
      ''Find flats and make a report'' demo_bot
     = (Inr [''Found ? properties:\<newline>\<newline>- row- row'',
             ''Report generated successfully! Saved to: report.pdf''],
        searched_bot\<lparr>world := 2\<rparr>)"
    by (simp add: execute_task_def demo_announce demo_search demo_report)
  have t2: "task_outputs demo_env 2 0
      [\<lparr>agent = ''search_property'', params = []\<rparr>, \<lparr>agent = ''generate_report'', params = []\<rparr>]
      ''Find flats and make a report'' demo_bot
     = (Inr [''Found ? properties:\<newline>\<newline>- row- row'',
             ''Report generated successfully! Saved to: report.pdf''],
        searched_bot\<lparr>world := 2\<rparr>)"
    by (simp add: execute_task_def demo_announce demo_search demo_report)
  from complex_response_in_task_order [where E = demo_env
      and tasks = "[\<lparr>agent = ''search_property'', params = []\<rparr>,
                    \<lparr>agent = ''generate_report'', params = []\<rparr>]"
      and user_input = "''Find flats and make a report''" and st = demo_bot
      and outs = "[''Found ? properties:\<newline>\<newline>- row- row'',
                   ''Report generated successfully! Saved to: report.pdf'']"
      and st' = "searched_bot\<lparr>world := 2\<rparr>"] t
  have "execute_complex_tasks demo_env
      [\<lparr>agent = ''search_property'', params = []\<rparr>, \<lparr>agent = ''generate_report'', params = []\<rparr>]
      ''Find flats and make a report'' demo_bot
     = (Inr (''\<newline>\<newline>**Search Property:**\<newline>Found ? properties:\<newline>\<newline>- row- row''
             @ ''\<newline>\<newline>---\<newline>\<newline>''
             @ ''**Generate Report:**\<newline>Report generated successfully! Saved to: report.pdf''),
        searched_bot\<lparr>world := 2\<rparr>)"
    by (simp add: labeled_def agent_name_def)
  with t2 show ?thesis by (intro conjI)
qed

lemma set_context_episodic:
  "episodic (snd (set_context E key v st)) = episodic st"
  by (simp add: set_context_def split: sum.splits prod.splits)

lemma get_context_episodic:
  "episodic (snd (get_context E key st)) = episodic st"
  by (simp add: get_context_def split: sum.splits prod.splits option.splits)

lemma save_if_episodic:
  "episodic (snd (save_if E slots slot key conv st)) = episodic st"
  by (simp add: save_if_def save_preference_def split: sum.splits prod.splits)

lemma handle_search_episodic:
  "episodic (snd (handle_search E slots st)) = episodic st"
proof -
  have sc: "set_context E k v s = (r, s') \<Longrightarrow> episodic s' = episodic s" for k v s r s'
    using set_context_episodic [of E k v s] by simp
  show ?thesis
    by (auto simp: handle_search_def Let_def dest!: sc split: prod.splits sum.splits)
qed

lemma handle_report_episodic:
  "episodic (snd (handle_report E slots st)) = episodic st"
  using get_context_episodic [of E "''last_search_results''" st]
  by (auto simp: handle_report_def split: prod.splits sum.splits)

lemma handle_save_preference_episodic:
  "episodic (snd (handle_save_preference E slots user_input st)) = episodic st"
proof -
  have s: "save_if E slots slot key conv s = (r, s') \<Longrightarrow> episodic s' = episodic s"
    for slot key conv s r s'
    using save_if_episodic [of E slots slot key conv s] by simp
  show ?thesis
    by (auto simp: handle_save_preference_def dest!: s split: prod.splits sum.splits)
qed

lemma execute_task_episodic:
  "episodic (snd (execute_task E t user_input st)) = episodic st"
  by (simp add: execute_task_def handle_search_episodic handle_report_episodic
        handle_save_preference_episodic handle_renovation_def handle_web_research_def
        handle_general_query_def split: prod.splits sum.splits)

lemma announce_episodic:
  "episodic (snd (announce E n i t st)) = episodic st"
  by (simp add: announce_def split: prod.splits)

lemma run_tasks_episodic:
  "episodic (snd (run_tasks E n i ts user_input acc st)) = episodic st"
proof (induction ts arbitrary: acc st i)
  case Nil
  show ?case by simp
next
  case (Cons t ts)
  have a: "announce E n i t st = (r, s) \<Longrightarrow> episodic s = episodic st" for r s
    using announce_episodic [of E n i t st] by simp
  have x: "execute_task E t user_input s = (r, s') \<Longrightarrow> episodic s' = episodic s" for r s s'
    using execute_task_episodic [of E t user_input s] by simp
  show ?case
    using Cons.IH
    by (auto dest!: a x split: prod.splits sum.splits)
qed

lemma execute_complex_tasks_episodic:
  "episodic (snd (execute_complex_tasks E ts user_input st)) = episodic st"
  using run_tasks_episodic [of E "length ts" 0 ts user_input "[]" st]
  by (auto simp: execute_complex_tasks_def split: prod.splits sum.splits)

text \<open>The part of \<^verbatim>\<open>chat\<close> between the two \<^verbatim>\<open>add_message\<close> calls leaves the log alone.\<close>

lemma chat_with_episodic:
  assumes c: "chat_with router E user_input st = (r, st')"
  shows "episodic st' =
     episodic st
     @ \<lparr>role = ''user'', content = user_input, timestamp = now_isoformat E (world st)\<rparr>
       # (case r of
            Inl e \<Rightarrow> []
          | Inr response \<Rightarrow>
              [\<lparr>role = ''assistant'', content = response,
                timestamp = now_isoformat E (world st')\<rparr>])"
proof -
  have t: "execute_task E t user_input s = (q, s') \<Longrightarrow> episodic s' = episodic s" for t s q s'
    using execute_task_episodic [of E t user_input s] by simp
  have m: "execute_complex_tasks E ts user_input s = (q, s') \<Longrightarrow> episodic s' = episodic s"
    for ts s q s'
    using execute_complex_tasks_episodic [of E ts user_input s] by simp
  from c show ?thesis
    by (auto simp: chat_with_def Let_def add_message_def dest!: t m
             split: prod.splits sum.splits if_splits list.splits)
qed

text \<open>
  C9. A turn that returns a response leaves the episodic log as it was, followed by the
  user's message and then the response, each once: two entries more. This holds for any
  router, so in the four branches of the dispatcher alike, and for the chatbot's own
  router. A turn that ends in an exception has recorded the user's message alone. The
  refusal of an out-of-scope query and the reply to an unknown query type are returned
  whenever the debug lines of the turn are printed.
\<close>

theorem turn_appends_user_and_assistant:
  "(chat_with router E user_input st = (Inr response, st') \<longrightarrow>
      episodic st' =
        episodic st
        @ [\<lparr>role = ''user'', content = user_input, timestamp = now_isoformat E (world st)\<rparr>,
           \<lparr>role = ''assistant'', content = response,
            timestamp = now_isoformat E (world st')\<rparr>]
      \<and> length (episodic st') = length (episodic st) + 2)
   \<and> (chat_with router E user_input st = (Inl e, st') \<longrightarrow>
        episodic st' =
          episodic st
          @ [\<lparr>role = ''user'', content = user_input, timestamp = now_isoformat E (world st)\<rparr>])
   \<and> (chat E user_input st = (Inr response, st') \<longrightarrow>
        episodic st' =
          episodic st
          @ [\<lparr>role = ''user'', content = user_input, timestamp = now_isoformat E (world st)\<rparr>,
             \<lparr>role = ''assistant'', content = response,
              timestamp = now_isoformat E (world st')\<rparr>])
   \<and> (router user_input (world st) = (Inr (''out_of_scope'', intents, slots), w1)
        \<and> print_lines E (debug_route E ''out_of_scope'' intents slots) w1 = (Inr (), w2)
        \<and> print_lines E (debug_tasks E []) w2 = (Inr (), w3) \<longrightarrow>
        fst (chat_with router E user_input st)
          = Inr ''I can only help with real estate queries. Please ask about properties, prices, or renovations.'')
   \<and> (router user_input (world st) = (Inr (query_type, intents, JObj d), w1)
        \<and> query_type \<notin> {''out_of_scope'', ''simple-query'', ''complex-query''}
        \<and> print_lines E (debug_route E query_type intents (JObj d)) w1 = (Inr (), w2)
        \<and> plan query_type intents (JObj d) = Inr tasks
        \<and> print_lines E (debug_tasks E tasks) w2 = (Inr (), w3) \<longrightarrow>
        fst (chat_with router E user_input st)
          = Inr ''I'm not sure how to help with that. Try asking about property search or renovation estimates.'')"
proof (intro conjI impI)
  assume c: "chat_with router E user_input st = (Inr response, st')"
  from chat_with_episodic [OF c]
  show a: "episodic st' =
        episodic st
        @ [\<lparr>role = ''user'', content = user_input, timestamp = now_isoformat E (world st)\<rparr>,
           \<lparr>role = ''assistant'', content = response,
            timestamp = now_isoformat E (world st')\<rparr>]"
    by simp
  then show "length (episodic st') = length (episodic st) + 2"
    by simp
next
  assume c: "chat_with router E user_input st = (Inl e, st')"
  from chat_with_episodic [OF c]
  show "episodic st' =
          episodic st
          @ [\<lparr>role = ''user'', content = user_input, timestamp = now_isoformat E (world st)\<rparr>]"
    by simp
next
  assume "chat E user_input st = (Inr response, st')"
  then have c: "chat_with (route E) E user_input st = (Inr response, st')"
    by (simp add: chat_def)
  from chat_with_episodic [OF c]
  show "episodic st' =
          episodic st
          @ [\<lparr>role = ''user'', content = user_input, timestamp = now_isoformat E (world st)\<rparr>,
             \<lparr>role = ''assistant'', content = response,
              timestamp = now_isoformat E (world st')\<rparr>]"
    by simp
next
  assume "router user_input (world st) = (Inr (''out_of_scope'', intents, slots), w1)
        \<and> print_lines E (debug_route E ''out_of_scope'' intents slots) w1 = (Inr (), w2)
        \<and> print_lines E (debug_tasks E []) w2 = (Inr (), w3)"
  then show "fst (chat_with router E user_input st)
          = Inr ''I can only help with real estate queries. Please ask about properties, prices, or renovations.''"
    by (simp add: chat_with_def Let_def add_message_def plan_def)
next
  assume "router user_input (world st) = (Inr (query_type, intents, JObj d), w1)
        \<and> query_type \<notin> {''out_of_scope'', ''simple-query'', ''complex-query''}
        \<and> print_lines E (debug_route E query_type intents (JObj d)) w1 = (Inr (), w2)
        \<and> plan query_type intents (JObj d) = Inr tasks
        \<and> print_lines E (debug_tasks E tasks) w2 = (Inr (), w3)"
  then show "fst (chat_with router E user_input st)
          = Inr ''I'm not sure how to help with that. Try asking about property search or renovation estimates.''"
    by (simp add: chat_with_def Let_def add_message_def)
qed

lemma demo_prints: "print_lines demo_env ls w = (Inr (), w)"
  by (induction ls) (simp_all add: demo_env_def)

lemma refused_turn:
  "fst (chat_with refusing_router demo_env ''Who is the president?'' demo_bot)
     = Inr ''I can only help with real estate queries. Please ask about properties, prices, or renovations.''"
  by (simp add: chat_with_def Let_def add_message_def refusing_router_def demo_prints plan_def)

lemma unknown_turn:
  "fst (chat_with unknown_router demo_env ''What now?'' demo_bot)
     = Inr ''I'm not sure how to help with that. Try asking about property search or renovation estimates.''"
  by (simp add: chat_with_def Let_def add_message_def unknown_router_def demo_prints plan_def
        plan_simple_def extract_relevant_params_def relevant_keys_def agent_params_def)

lemma chatty_route:
  "route chatty_env ''hello'' 0 = (Inr (''simple-query'', [''general_query''], JObj []), 1)"
proof -
  have c: "call_llm chatty_env (build_prompt ''hello'') 0 = (Inr (JStr ''Sure, I can help''), 1)"
    by (simp add: call_llm_def chatty_env_def demo_env_def demo_loads_def list_index_def)
  have p: "print_lines chatty_env (no_json_lines ''Sure, I can help'') 1 = (Inr (), 1)"
    by (simp add: no_json_lines_def chatty_env_def demo_env_def)
  from route_no_json [OF c _ p] demo_no_json show ?thesis by simp
qed

lemma chatty_prints: "print_lines chatty_env ls w = (Inr (), w)"
  by (induction ls) (simp_all add: chatty_env_def demo_env_def)

lemma simple_turn:
  "fst (chat chatty_env ''hello'' demo_bot) = Inr (''answer\<newline>\<newline>Sources: P1'')"
proof -
  have w: "world (add_message chatty_env ''user'' ''hello'' demo_bot) = 0"
    by (simp add: add_message_def demo_bot_def)
  have p: "plan ''simple-query'' [''general_query''] (JObj [])
      = Inr [\<lparr>agent = ''general_query'', params = []\<rparr>]"
    by (simp add: plan_def plan_simple_def extract_relevant_params_def relevant_keys_def
          agent_params_def)
  have g: "handle_general_query chatty_env ''hello'' [] s
      = (Inr (''answer\<newline>\<newline>Sources: P1''), s\<lparr>world := Suc (world s)\<rparr>)" for s
    by (simp add: handle_general_query_def chatty_env_def demo_env_def dict_get_def)
  show ?thesis
    by (simp add: chat_def chat_with_def Let_def w chatty_route [simplified] chatty_prints p
          execute_task_def g)
qed

lemma down_turn:
  "fst (chat down_env ''hello'' demo_bot) = Inl RequestException"
proof -
  have w: "world (add_message down_env ''user'' ''hello'' demo_bot) = 0"
    by (simp add: add_message_def demo_bot_def)
  have r: "route down_env ''hello'' 0 = (Inl RequestException, Suc 0)"
    by (simp add: route_def call_llm_def down_env_def demo_env_def)
  show ?thesis
    by (simp add: chat_def chat_with_def Let_def w r)
qed

lemma demo_report_empty:
  "\<not> redis_available s \<Longrightarrow> shortterm s = [] \<Longrightarrow>
   handle_report demo_env ps s
     = (Inr ''No recent property searches found. Please search for properties first.'', s)"
  by (simp add: handle_report_def get_context_def dict_get_def)

lemma demo_search_any:
  "\<not> redis_available s \<Longrightarrow>
   handle_search demo_env ps s
     = (Inr (''Found ? properties:\<newline>\<newline>- row- row''),
        s\<lparr>world := Suc (world s),
          shortterm := dict_set (full_key s ''last_search_results'') (JList demo_rows)
                         (shortterm s)\<rparr>)"
  by (simp add: handle_search_def search_properties_def Let_def take_ten demo_env_def
        demo_rows_def set_context_def full_key_def split: prod.splits)

lemma complex_turn:
  "fst (chat demo_env ''Find flats in Pune and make a report'' demo_bot)
     = Inr (''\<newline>\<newline>**Generate Report:**\<newline>No recent property searches found. Please search for properties first.''
            @ ''\<newline>\<newline>---\<newline>\<newline>''
            @ ''**Search Property:**\<newline>Found ? properties:\<newline>\<newline>- row- row'')"
proof -
  have w: "world (add_message demo_env ''user'' ''Find flats in Pune and make a report'' demo_bot)
      = 0"
    by (simp add: add_message_def demo_bot_def)
  have p: "plan ''complex-query'' [''generate_report'', ''search_property'']
        (JObj [(''location'', JStr ''Pune''), (''num_rooms'', JInt 0), (''max_price'', JNull)])
      = Inr [\<lparr>agent = ''generate_report'', params = []\<rparr>,
             \<lparr>agent = ''search_property'',
              params = [(''location'', JStr ''Pune''), (''num_rooms'', JInt 0)]\<rparr>]"
    by (simp add: plan_def plan_complex_def extract_relevant_params_def relevant_keys_def
          agent_params_def)
  have s: "\<not> redis_available
              (add_message demo_env ''user'' ''Find flats in Pune and make a report'' demo_bot
                 \<lparr>world := Suc 0\<rparr>)"
    "shortterm (add_message demo_env ''user'' ''Find flats in Pune and make a report'' demo_bot
                 \<lparr>world := Suc 0\<rparr>) = []"
    by (simp_all add: add_message_def demo_bot_def)
  show ?thesis
    by (simp add: chat_def chat_with_def Let_def w demo_route [simplified] demo_prints p
          execute_complex_tasks_def demo_announce execute_task_def demo_report_empty
          demo_search_any s labeled_def agent_name_def agent_names)
qed

lemma turn_result: "fst p = r \<Longrightarrow> p = (r, snd p)"
  by (cases p) simp

theorem turn_appends_user_and_assistant_witness:
  "episodic (snd (chat_with refusing_router demo_env ''Who is the president?'' demo_bot))
     = episodic demo_bot
       @ [\<lparr>role = ''user'', content = ''Who is the president?'', timestamp = ''t''\<rparr>,
          \<lparr>role = ''assistant'',
           content = ''I can only help with real estate queries. Please ask about properties, prices, or renovations.'',
           timestamp = ''t''\<rparr>]
   \<and> episodic (snd (chat_with unknown_router demo_env ''What now?'' demo_bot))
     = episodic demo_bot
       @ [\<lparr>role = ''user'', content = ''What now?'', timestamp = ''t''\<rparr>,
          \<lparr>role = ''assistant'',
           content = ''I'm not sure how to help with that. Try asking about property search or renovation estimates.'',
           timestamp = ''t''\<rparr>]
   \<and> episodic (snd (chat chatty_env ''hello'' demo_bot))
     = episodic demo_bot
       @ [\<lparr>role = ''user'', content = ''hello'', timestamp = ''t''\<rparr>,
          \<lparr>role = ''assistant'', content = ''answer\<newline>\<newline>Sources: P1'', timestamp = ''t''\<rparr>]
   \<and> episodic (snd (chat demo_env ''Find flats in Pune and make a report'' demo_bot))
     = episodic demo_bot
       @ [\<lparr>role = ''user'', content = ''Find flats in Pune and make a report'',
           timestamp = ''t''\<rparr>,
          \<lparr>role = ''assistant'',
           content = ''\<newline>\<newline>**Generate Report:**\<newline>No recent property searches found. Please search for properties first.''
            @ ''\<newline>\<newline>---\<newline>\<newline>''
            @ ''**Search Property:**\<newline>Found ? properties:\<newline>\<newline>- row- row'',
           timestamp = ''t''\<rparr>]
   \<and> episodic (snd (chat down_env ''hello'' demo_bot))
     = episodic demo_bot @ [\<lparr>role = ''user'', content = ''hello'', timestamp = ''t''\<rparr>]
   \<and> length (episodic demo_bot) = 3"
proof -
  have n: "now_isoformat demo_env w = ''t''" "now_isoformat chatty_env w = ''t''"
    "now_isoformat down_env w = ''t''" for w
    by (simp_all add: demo_env_def chatty_env_def down_env_def)
  from turn_appends_user_and_assistant [where router = refusing_router and E = demo_env
      and user_input = "''Who is the president?''" and st = demo_bot
      and response = "''I can only help with real estate queries. Please ask about properties, prices, or renovations.''"
      and st' = "snd (chat_with refusing_router demo_env ''Who is the president?'' demo_bot)"]
    turn_result [OF refused_turn]
  have a: "episodic (snd (chat_with refusing_router demo_env ''Who is the president?'' demo_bot))
     = episodic demo_bot
       @ [\<lparr>role = ''user'', content = ''Who is the president?'', timestamp = ''t''\<rparr>,
          \<lparr>role = ''assistant'',
           content = ''I can only help with real estate queries. Please ask about properties, prices, or renovations.'',
           timestamp = ''t''\<rparr>]"
    by (simp add: n)
  from turn_appends_user_and_assistant [where router = unknown_router and E = demo_env
      and user_input = "''What now?''" and st = demo_bot
      and response = "''I'm not sure how to help with that. Try asking about property search or renovation estimates.''"
      and st' = "snd (chat_with unknown_router demo_env ''What now?'' demo_bot)"]
    turn_result [OF unknown_turn]
  have b: "episodic (snd (chat_with unknown_router demo_env ''What now?'' demo_bot))
     = episodic demo_bot
       @ [\<lparr>role = ''user'', content = ''What now?'', timestamp = ''t''\<rparr>,
          \<lparr>role = ''assistant'',
           content = ''I'm not sure how to help with that. Try asking about property search or renovation estimates.'',
           timestamp = ''t''\<rparr>]"
    by (simp add: n)
  from turn_appends_user_and_assistant [where E = chatty_env
      and user_input = "''hello''" and st = demo_bot
      and response = "''answer\<newline>\<newline>Sources: P1''"
      and st' = "snd (chat chatty_env ''hello'' demo_bot)"]
    turn_result [OF simple_turn]
  have c: "episodic (snd (chat chatty_env ''hello'' demo_bot))
     = episodic demo_bot
       @ [\<lparr>role = ''user'', content = ''hello'', timestamp = ''t''\<rparr>,
          \<lparr>role = ''assistant'', content = ''answer\<newline>\<newline>Sources: P1'', timestamp = ''t''\<rparr>]"
    by (simp add: n)
  from turn_appends_user_and_assistant [where E = demo_env
      and user_input = "''Find flats in Pune and make a report''" and st = demo_bot
      and response = "''\<newline>\<newline>**Generate Report:**\<newline>No recent property searches found. Please search for properties first.''
            @ ''\<newline>\<newline>---\<newline>\<newline>''
            @ ''**Search Property:**\<newline>Found ? properties:\<newline>\<newline>- row- row''"
      and st' = "snd (chat demo_env ''Find flats in Pune and make a report'' demo_bot)"]
    turn_result [OF complex_turn]
  have x: "episodic (snd (chat demo_env ''Find flats in Pune and make a report'' demo_bot))
     = episodic demo_bot
       @ [\<lparr>role = ''user'', content = ''Find flats in Pune and make a report'',
           timestamp = ''t''\<rparr>,
          \<lparr>role = ''assistant'',
           content = ''\<newline>\<newline>**Generate Report:**\<newline>No recent property searches found. Please search for properties first.''
            @ ''\<newline>\<newline>---\<newline>\<newline>''
            @ ''**Search Property:**\<newline>Found ? properties:\<newline>\<newline>- row- row'',
           timestamp = ''t''\<rparr>]"
    by (simp add: n)
  have dt: "chat_with (route down_env) down_env ''hello'' demo_bot
      = (Inl RequestException, snd (chat down_env ''hello'' demo_bot))"
    using turn_result [OF down_turn] by (simp add: chat_def)
  from turn_appends_user_and_assistant [where router = "route down_env" and E = down_env
      and user_input = "''hello''" and st = demo_bot and e = RequestException
      and st' = "snd (chat down_env ''hello'' demo_bot)"] dt
  have d: "episodic (snd (chat down_env ''hello'' demo_bot))
     = episodic demo_bot @ [\<lparr>role = ''user'', content = ''hello'', timestamp = ''t''\<rparr>]"
    by (simp add: n)
  have l: "length (episodic demo_bot) = 3"
    by (simp add: demo_bot_def)
  from a b c x d l show ?thesis by (intro conjI)
qed

end
